theory Spec2Isabelle
  imports Complex_Main
begin

section \<open>Driver server actions (src/app/driver/actions.tsx)\<close>

text \<open>
  The four exported server actions \<^verbatim>\<open>updateStopStatus\<close>, \<^verbatim>\<open>savePOD\<close>,
  \<^verbatim>\<open>uploadToBlob\<close> and \<^verbatim>\<open>updateDriverPosition\<close> are embedded as functions of an
  environment (what each collaborator answers when it is called) and of the action's
  arguments. Each returns the value handed to the caller together with the list of
  calls the action made, in order.
\<close>

subsection \<open>JavaScript values\<close>

datatype js_val = JUndefined | JNull | JBool bool | JNum int | JStr string

text \<open>Truthiness, as tested by \<^verbatim>\<open>if (x)\<close>, \<^verbatim>\<open>!x\<close>, \<^verbatim>\<open>x || y\<close> and \<^verbatim>\<open>x && y\<close>.\<close>

fun truthy :: "js_val \<Rightarrow> bool" where
  "truthy JUndefined = False"
| "truthy JNull = False"
| "truthy (JBool b) = b"
| "truthy (JNum n) = (n \<noteq> 0)"
| "truthy (JStr s) = (s \<noteq> [])"

text \<open>
  A \<^verbatim>\<open>number\<close> argument (latitude, longitude, accuracy). \<^verbatim>\<open>NaN\<close> and zero are
  the falsy numbers.
\<close>

datatype number = NaN | Num real

fun number_truthy :: "number \<Rightarrow> bool" where
  "number_truthy NaN = False"
| "number_truthy (Num x) = (x \<noteq> 0)"

text \<open>An object literal: its fields in the order they are written.\<close>

type_synonym js_obj = "(string \<times> js_val) list"

text \<open>
  An error value, returned in an \<^verbatim>\<open>error\<close> field or thrown: an opaque object whose
  only field the code reads is the optional \<^verbatim>\<open>message\<close>.
\<close>

datatype js_error = JsError (message: "string option")

text \<open>What a call does: it throws, or it returns a value.\<close>

datatype 'a outcome = Raises js_error | Returns 'a

fun is_Returns :: "'a outcome \<Rightarrow> bool" where
  "is_Returns (Returns v) = True"
| "is_Returns (Raises e) = False"

subsection \<open>Calls made to collaborators\<close>

datatype stop_status = delivered | failed

record blob =
  bytes :: "nat list"
  blob_type :: string

record pod_row =
  order_id :: string
  driver_id :: string
  photo_url :: "string option"
  signature_url :: "string option"
  pod_notes :: "string option"
  delivered_at :: string

record position_params =
  p_driver_id :: string
  p_lat :: number
  p_lng :: number
  p_accuracy :: "number option"

datatype event =
    CreateServerClient
  | AuthGetUser
  | OrdersUpdate string stop_status string
  | StopEventsInsert string string stop_status "string option"
  | PodsInsert pod_row
  | RpcUpsertDriverPosition position_params
  | BlobPut string blob string
  | FetchDataUrl string
  | FetchPodEmail string js_val
  | Sleep nat
  | RevalidatePath string
  | ConsoleLog string
  | ConsoleWarn string
  | ConsoleError string

text \<open>
  \<^verbatim>\<open>OrdersUpdate orderId status updated_at\<close> is
  \<^verbatim>\<open>from("orders").update({status, updated_at}).eq("id", orderId)\<close>;
  \<^verbatim>\<open>StopEventsInsert order_id driver_id event_type notes\<close> is the insert into
  \<^verbatim>\<open>stop_events\<close>; \<^verbatim>\<open>BlobPut filename blob contentType\<close> is the \<^verbatim>\<open>put\<close> of
  \<^verbatim>\<open>@vercel/blob\<close>; \<^verbatim>\<open>Sleep ms\<close> is the awaited \<^verbatim>\<open>setTimeout\<close>. The console
  calls and \<^verbatim>\<open>revalidatePath\<close> are signals whose result the code never reads; they
  are recorded and return normally.
\<close>

type_synonym 'a io = "'a outcome \<times> event list"

fun io_call :: "event \<Rightarrow> 'a outcome \<Rightarrow> 'a io" where
  "io_call ev r = (r, [ev])"

fun io_emit :: "event list \<Rightarrow> 'a io \<Rightarrow> 'a io" where
  "io_emit es (r, t) = (r, es @ t)"

fun io_bind :: "'a io \<Rightarrow> ('a \<Rightarrow> 'b io) \<Rightarrow> 'b io" where
  "io_bind (Raises e, t) f = (Raises e, t)"
| "io_bind (Returns v, t) f = io_emit t (f v)"

fun io_try :: "'a io \<Rightarrow> (js_error \<Rightarrow> 'a io) \<Rightarrow> 'a io" where
  "io_try (Raises e, t) h = io_emit t (h e)"
| "io_try (Returns v, t) h = (Returns v, t)"

subsection \<open>The environment\<close>

record user =
  user_id :: string

record auth_response =
  auth_user :: "user option"
  authError :: "js_error option"

record pod_data =
  pod_id :: js_val

record pod_response =
  podData :: "pod_data option"
  podError :: "js_error option"

text \<open>
  The body of the response of \<^verbatim>\<open>/api/pod-email\<close> as \<^verbatim>\<open>r.json()\<close> parses it:
  \<^verbatim>\<open>null\<close>, an object (of which the code reads \<^verbatim>\<open>ok\<close>), or another JSON value.
\<close>

datatype json_reply = JsonNull | JsonObject (reply_ok: js_val) | JsonPrimitive

record http_response =
  content_type :: "string option"
  http_status :: int
  body_json :: "json_reply outcome"
  body_text :: "string outcome"

text \<open>
  What each collaborator answers. Creating the client, the identity lookup, every store
  call, the blob put, reading a data URL and the notification \<^verbatim>\<open>fetch\<close> may each
  throw (\<open>Raises\<close>) or return. The store calls of the retry loops are indexed by
  \<^verbatim>\<open>retryCount\<close>, the number of attempts already failed when the call is made.
  \<open>fetch_pod_email\<close> throws synchronously or returns a promise, which settles later as
  rejected or with a response.
\<close>

record env =
  createServerClient :: "unit outcome"
  auth_getUser :: "auth_response outcome"
  orders_update :: "nat \<Rightarrow> js_error option outcome"
  stop_events_insert :: "nat \<Rightarrow> js_error option outcome"
  pods_insert :: "nat \<Rightarrow> pod_response outcome"
  rpc_upsert_driver_position :: "js_error option outcome"
  blob_put :: "nat \<Rightarrow> string outcome"
  fetch_data_url :: "string \<Rightarrow> blob outcome"
  fetch_pod_email :: "nat \<Rightarrow> http_response outcome outcome"
  NEXT_PUBLIC_ENABLE_POD_EMAIL :: "string option"
  now_iso :: "nat \<Rightarrow> string"

definition maxRetries :: nat where
  "maxRetries = 3"

text \<open>
  After a failed attempt \<^verbatim>\<open>retryCount\<close> has been incremented; the loop sleeps
  \<^verbatim>\<open>1000 * retryCount\<close> milliseconds when \<^verbatim>\<open>retryCount < maxRetries\<close>.
\<close>

definition backoff :: "nat \<Rightarrow> event list" where
  "backoff retryCount = (if retryCount < maxRetries then [Sleep (1000 * retryCount)] else [])"

text \<open>
  One pass through the body of a retry loop either returns from the action or falls
  through to the loop test with \<^verbatim>\<open>retryCount\<close> incremented and \<^verbatim>\<open>lastError\<close> set.
\<close>

datatype 'a control = Done 'a | Retry "js_error option"

text \<open>\<^verbatim>\<open>lastError?.message || "Network error"\<close>\<close>

fun error_message :: "js_error option \<Rightarrow> string" where
  "error_message None = ''Network error''"
| "error_message (Some (JsError None)) = ''Network error''"
| "error_message (Some (JsError (Some m))) = (if m = [] then ''Network error'' else m)"

subsection \<open>updateDriverPosition\<close>

definition position_rpc_params :: "user \<Rightarrow> number \<Rightarrow> number \<Rightarrow> number option \<Rightarrow> position_params" where
  "position_rpc_params u lat lng accuracy =
     \<lparr> p_driver_id = user_id u,
       p_lat = lat,
       p_lng = lng,
       p_accuracy = (case accuracy of
                       None \<Rightarrow> None
                     | Some a \<Rightarrow> if number_truthy a then Some a else None) \<rparr>"

definition updateDriverPosition_body :: "env \<Rightarrow> number \<Rightarrow> number \<Rightarrow> number option \<Rightarrow> js_obj io" where
  "updateDriverPosition_body e lat lng accuracy =
     io_bind (io_call CreateServerClient (createServerClient e)) (\<lambda>supabase.
     io_bind (io_call AuthGetUser (auth_getUser e)) (\<lambda>resp.
       case (authError resp, auth_user resp) of
         (None, Some u) \<Rightarrow>
           io_bind (io_call (RpcUpsertDriverPosition (position_rpc_params u lat lng accuracy))
                            (rpc_upsert_driver_position e)) (\<lambda>error.
             case error of
               Some err \<Rightarrow>
                 (Returns [(''success'', JBool False), (''error'', JStr ''Failed to update position'')],
                  [ConsoleError ''[v0] Error updating driver position:''])
             | None \<Rightarrow> (Returns [(''success'', JBool True)], []))
       | _ \<Rightarrow>
           (Returns [(''success'', JBool False),
                     (''error'', JStr ''Authentication required''),
                     (''code'', JStr ''AUTH_EXPIRED'')], [])))"

definition updateDriverPosition :: "env \<Rightarrow> number \<Rightarrow> number \<Rightarrow> number option \<Rightarrow> js_obj io" where
  "updateDriverPosition e lat lng accuracy =
     io_try (updateDriverPosition_body e lat lng accuracy) (\<lambda>error.
       (Returns [(''success'', JBool False), (''error'', JStr ''An unexpected error occurred'')],
        [ConsoleError ''[v0] Unexpected error in updateDriverPosition:'']))"

subsection \<open>updateStopStatus\<close>

definition auth_expired :: js_obj where
  "auth_expired =
     [(''success'', JBool False),
      (''error'', JStr ''Your session has expired. Please log in again.''),
      (''code'', JStr ''AUTH_EXPIRED'')]"

text \<open>
  The body of the \<^verbatim>\<open>while\<close> loop: the inner \<^verbatim>\<open>try\<close> block and its \<^verbatim>\<open>catch\<close>.
  Both the tail of the \<^verbatim>\<open>try\<close> block and the \<^verbatim>\<open>catch\<close> set \<^verbatim>\<open>lastError\<close>,
  increment \<^verbatim>\<open>retryCount\<close> and sleep when attempts remain.
\<close>

definition status_attempt ::
  "env \<Rightarrow> string \<Rightarrow> stop_status \<Rightarrow> string option \<Rightarrow> user \<Rightarrow> nat \<Rightarrow> js_obj control io" where
  "status_attempt e orderId status notes u retryCount =
     io_try
       (io_bind (io_call (OrdersUpdate orderId status (now_iso e retryCount))
                         (orders_update e retryCount)) (\<lambda>error.
          case error of
            None \<Rightarrow>
              io_bind (io_call (StopEventsInsert orderId (user_id u) status notes)
                               (stop_events_insert e retryCount)) (\<lambda>eventError.
                (Returns (Done [(''success'', JBool True)]),
                 (case eventError of
                    Some ee \<Rightarrow> [ConsoleError ''[v0] Error creating stop event:'']
                  | None \<Rightarrow> [])
                 @ [RevalidatePath ''/driver'']))
          | Some err \<Rightarrow> (Returns (Retry (Some err)), backoff (retryCount + 1))))
       (\<lambda>err. (Returns (Retry (Some err)), backoff (retryCount + 1)))"

text \<open>The statements after the loop, reached when every attempt has failed.\<close>

definition status_exhausted :: "js_error option \<Rightarrow> js_obj io" where
  "status_exhausted lastError =
     (Returns [(''success'', JBool False),
               (''error'', JStr (''Failed to update order status: '' @ error_message lastError))],
      [ConsoleError ''[v0] Database error in updateStopStatus after retries:''])"

function status_loop ::
  "env \<Rightarrow> string \<Rightarrow> stop_status \<Rightarrow> string option \<Rightarrow> user \<Rightarrow> nat \<Rightarrow> js_error option \<Rightarrow> js_obj io" where
  "status_loop e orderId status notes u retryCount lastError =
     (if retryCount < maxRetries then
        io_bind (status_attempt e orderId status notes u retryCount) (\<lambda>c.
          case c of
            Done r \<Rightarrow> (Returns r, [])
          | Retry err \<Rightarrow> status_loop e orderId status notes u (retryCount + 1) err)
      else status_exhausted lastError)"
  by pat_completeness auto
termination
  by (relation "measure (\<lambda>(e, orderId, status, notes, u, retryCount, lastError). maxRetries - retryCount)")
     auto

definition updateStopStatus_body :: "env \<Rightarrow> string \<Rightarrow> stop_status \<Rightarrow> string option \<Rightarrow> js_obj io" where
  "updateStopStatus_body e orderId status notes =
     io_bind (io_call CreateServerClient (createServerClient e)) (\<lambda>supabase.
     io_bind (io_call AuthGetUser (auth_getUser e)) (\<lambda>resp.
       case (authError resp, auth_user resp) of
         (None, Some u) \<Rightarrow> status_loop e orderId status notes u 0 None
       | _ \<Rightarrow> (Returns auth_expired, [ConsoleError ''[v0] Auth error in updateStopStatus:''])))"

definition updateStopStatus :: "env \<Rightarrow> string \<Rightarrow> stop_status \<Rightarrow> string option \<Rightarrow> js_obj io" where
  "updateStopStatus e orderId status notes =
     io_try (updateStopStatus_body e orderId status notes) (\<lambda>error.
       (Returns [(''success'', JBool False),
                 (''error'', JStr ''An unexpected error occurred. Please try again.'')],
        [ConsoleError ''[v0] Unexpected error in updateStopStatus:'']))"

subsection \<open>savePOD\<close>

text \<open>\<^verbatim>\<open>recipientName ? `Recipient: ${recipientName}\n${notes || ""}` : notes\<close>\<close>

definition podNotes :: "string option \<Rightarrow> string option \<Rightarrow> string option" where
  "podNotes recipientName notes =
     (case recipientName of
        Some r \<Rightarrow>
          if r \<noteq> [] then
            Some (''Recipient: '' @ r @ [CHR 0x0A] @ (case notes of Some n \<Rightarrow> n | None \<Rightarrow> []))
          else notes
      | None \<Rightarrow> notes)"

fun startsWith :: "string \<Rightarrow> string \<Rightarrow> bool" where
  "startsWith s [] = True"
| "startsWith [] (p # ps) = False"
| "startsWith (c # cs) (p # ps) = (c = p \<and> startsWith cs ps)"

fun js_includes :: "string \<Rightarrow> string \<Rightarrow> bool" where
  "js_includes [] needle = (needle = [])"
| "js_includes (c # cs) needle = (startsWith (c # cs) needle \<or> js_includes cs needle)"

text \<open>
  The block guarded by \<^verbatim>\<open>podData.id && process.env.NEXT_PUBLIC_ENABLE_POD_EMAIL === "true"\<close>:
  \<^verbatim>\<open>fetch\<close> is called inside its own \<^verbatim>\<open>try\<close>, and the promise it returns is not awaited.
\<close>

definition pod_email_dispatch :: "env \<Rightarrow> string \<Rightarrow> pod_data \<Rightarrow> nat \<Rightarrow> unit io" where
  "pod_email_dispatch e orderId pd retryCount =
     (if truthy (pod_id pd) \<and> NEXT_PUBLIC_ENABLE_POD_EMAIL e = Some ''true'' then
        io_emit [ConsoleLog ''[v0] [POD] Triggering email via API route'',
                 ConsoleLog ''[v0] [POD] Order ID:'',
                 ConsoleLog ''[v0] [POD] POD ID:'']
          (io_try
             (io_bind (io_call (FetchPodEmail orderId (pod_id pd)) (fetch_pod_email e retryCount))
                (\<lambda>promise. (Returns (), [])))
             (\<lambda>emailError. (Returns (), [ConsoleWarn ''[v0] [POD] Email setup failed (non-blocking):''])))
      else (Returns (), []))"

text \<open>
  The handlers attached to that promise, run whenever it settles. The \<^verbatim>\<open>then\<close> callback
  reads the response; reading \<^verbatim>\<open>result.ok\<close> of a \<^verbatim>\<open>null\<close> body throws.
\<close>

definition pod_email_then :: "http_response \<Rightarrow> json_reply io" where
  "pod_email_then r =
     io_bind
       (if js_includes (case content_type r of Some ct \<Rightarrow> ct | None \<Rightarrow> []) ''application/json''
        then (body_json r, [])
        else io_bind (body_text r, []) (\<lambda>body. (Returns (JsonObject (JBool False)), [])))
       (\<lambda>result.
          io_emit [ConsoleLog ''[v0] [POD] Email API response:'']
            (case result of
               JsonNull \<Rightarrow> (Raises (JsError (Some ''Cannot read properties of null'')), [])
             | JsonObject ok \<Rightarrow>
                 (Returns result, if truthy ok then [] else [ConsoleError ''[v0] [POD] Email failed:''])
             | JsonPrimitive \<Rightarrow> (Returns result, [ConsoleError ''[v0] [POD] Email failed:''])))"

definition pod_email_task :: "http_response outcome \<Rightarrow> unit io" where
  "pod_email_task settled =
     io_try
       (io_bind (io_bind (settled, []) pod_email_then) (\<lambda>result. (Returns (), [])))
       (\<lambda>e. (Returns (), [ConsoleWarn ''[v0] [POD] Email API call failed (non-blocking):'']))"

definition pod_attempt ::
  "env \<Rightarrow> string \<Rightarrow> string option \<Rightarrow> string option \<Rightarrow> string option \<Rightarrow> user \<Rightarrow> nat \<Rightarrow> js_obj control io" where
  "pod_attempt e orderId photoUrl signatureUrl persistedNotes u retryCount =
     io_try
       (io_bind (io_call (PodsInsert \<lparr> order_id = orderId,
                                       driver_id = user_id u,
                                       photo_url = photoUrl,
                                       signature_url = signatureUrl,
                                       pod_notes = persistedNotes,
                                       delivered_at = now_iso e retryCount \<rparr>)
                         (pods_insert e retryCount)) (\<lambda>resp.
          case (podError resp, podData resp) of
            (None, Some pd) \<Rightarrow>
              io_bind (pod_email_dispatch e orderId pd retryCount) (\<lambda>x.
                (Returns (Done [(''success'', JBool True)]), [RevalidatePath ''/driver'']))
          | _ \<Rightarrow> (Returns (Retry (podError resp)), backoff (retryCount + 1))))
       (\<lambda>err. (Returns (Retry (Some err)), backoff (retryCount + 1)))"

definition pod_exhausted :: "js_error option \<Rightarrow> js_obj io" where
  "pod_exhausted lastError =
     (Returns [(''success'', JBool False),
               (''error'', JStr (''Failed to save proof of delivery: '' @ error_message lastError))],
      [ConsoleError ''[v0] Database error in savePOD after retries:''])"

function pod_loop ::
  "env \<Rightarrow> string \<Rightarrow> string option \<Rightarrow> string option \<Rightarrow> string option \<Rightarrow> user \<Rightarrow> nat \<Rightarrow> js_error option \<Rightarrow> js_obj io" where
  "pod_loop e orderId photoUrl signatureUrl persistedNotes u retryCount lastError =
     (if retryCount < maxRetries then
        io_bind (pod_attempt e orderId photoUrl signatureUrl persistedNotes u retryCount) (\<lambda>c.
          case c of
            Done r \<Rightarrow> (Returns r, [])
          | Retry err \<Rightarrow> pod_loop e orderId photoUrl signatureUrl persistedNotes u (retryCount + 1) err)
      else pod_exhausted lastError)"
  by pat_completeness auto
termination
  by (relation "measure (\<lambda>(e, orderId, photoUrl, signatureUrl, persistedNotes, u, retryCount, lastError).
                  maxRetries - retryCount)")
     auto

definition savePOD_body ::
  "env \<Rightarrow> string \<Rightarrow> string option \<Rightarrow> string option \<Rightarrow> string option \<Rightarrow> string option \<Rightarrow> js_obj io" where
  "savePOD_body e orderId photoUrl signatureUrl notes recipientName =
     io_bind (io_call CreateServerClient (createServerClient e)) (\<lambda>supabase.
     io_bind (io_call AuthGetUser (auth_getUser e)) (\<lambda>resp.
       case (authError resp, auth_user resp) of
         (None, Some u) \<Rightarrow>
           pod_loop e orderId photoUrl signatureUrl (podNotes recipientName notes) u 0 None
       | _ \<Rightarrow> (Returns auth_expired, [ConsoleError ''[v0] Auth error in savePOD:''])))"

definition savePOD ::
  "env \<Rightarrow> string \<Rightarrow> string option \<Rightarrow> string option \<Rightarrow> string option \<Rightarrow> string option \<Rightarrow> js_obj io" where
  "savePOD e orderId photoUrl signatureUrl notes recipientName =
     io_try (savePOD_body e orderId photoUrl signatureUrl notes recipientName) (\<lambda>error.
       (Returns [(''success'', JBool False),
                 (''error'', JStr ''An unexpected error occurred. Please try again.'')],
        [ConsoleError ''[v0] Unexpected error in savePOD:'']))"

subsection \<open>uploadToBlob\<close>

text \<open>
  Strings are lists of 8-bit characters; \<^verbatim>\<open>atob\<close> rejects every character outside
  the base64 alphabet, so wider code units need no separate case.

  \<^verbatim>\<open>base64Data.split(',')\<close>: the pieces between the commas, at least one piece.
\<close>

fun split_on :: "char \<Rightarrow> string \<Rightarrow> string list" where
  "split_on sep [] = [[]]"
| "split_on sep (c # cs) =
     (if c = sep then [] # split_on sep cs
      else (case split_on sep cs of
              p # ps \<Rightarrow> (c # p) # ps
            | [] \<Rightarrow> [[c]]))"

text \<open>\<^verbatim>\<open>base64Data.split(',')[1] || base64Data\<close>\<close>

definition base64_payload :: "string \<Rightarrow> string" where
  "base64_payload base64Data =
     (case split_on CHR '','' base64Data of
        p # q # rest \<Rightarrow> if q \<noteq> [] then q else base64Data
      | _ \<Rightarrow> base64Data)"

text \<open>
  The platform's \<^verbatim>\<open>atob\<close>, which is the forgiving-base64 decode of the HTML
  standard: ASCII whitespace is dropped; when the length is then a multiple of four, one
  or two trailing \<^verbatim>\<open>=\<close> are dropped; a length of 1 modulo 4 or a character outside
  the alphabet fails (\<^verbatim>\<open>InvalidCharacterError\<close>); every four characters give three
  bytes, and a rest of two or three characters gives one or two bytes.
\<close>

definition is_ascii_whitespace :: "char \<Rightarrow> bool" where
  "is_ascii_whitespace c \<longleftrightarrow> (of_char c :: nat) \<in> set [9, 10, 12, 13, 32]"

definition b64_index :: "char \<Rightarrow> nat option" where
  "b64_index c =
     (let n = (of_char c :: nat) in
      if 65 \<le> n \<and> n \<le> 90 then Some (n - 65)
      else if 97 \<le> n \<and> n \<le> 122 then Some (n - 71)
      else if 48 \<le> n \<and> n \<le> 57 then Some (n + 4)
      else if n = 43 then Some 62
      else if n = 47 then Some 63
      else None)"

fun b64_bytes :: "nat list \<Rightarrow> nat list" where
  "b64_bytes (a # b # c # d # rest) =
     (let n = ((a * 64 + b) * 64 + c) * 64 + d
      in n div 65536 # (n div 256) mod 256 # n mod 256 # b64_bytes rest)"
| "b64_bytes [a, b, c] = (let n = ((a * 64 + b) * 64 + c) div 4 in [n div 256, n mod 256])"
| "b64_bytes [a, b] = [(a * 64 + b) div 16]"
| "b64_bytes [a] = []"
| "b64_bytes [] = []"

definition strip_padding :: "string \<Rightarrow> string" where
  "strip_padding d =
     (if length d mod 4 = 0 then
        (case rev d of
           x # y # r \<Rightarrow>
             if x = CHR ''='' \<and> y = CHR ''='' then rev r
             else if x = CHR ''='' then rev (y # r)
             else d
         | _ \<Rightarrow> d)
      else d)"

definition atob :: "string \<Rightarrow> string option" where
  "atob data =
     (let d = strip_padding (filter (\<lambda>c. \<not> is_ascii_whitespace c) data) in
      if length d mod 4 = 1 then None
      else (case those (map b64_index d) of
              None \<Rightarrow> None
            | Some sextets \<Rightarrow> Some (map char_of (b64_bytes sextets))))"

text \<open>
  The first statement of the outer \<^verbatim>\<open>try\<close>: the payload as a \<^verbatim>\<open>Blob\<close>. A data URL
  is read with \<^verbatim>\<open>fetch\<close> and \<^verbatim>\<open>blob()\<close>, taken together as one collaborator call;
  anything else is decoded with \<^verbatim>\<open>atob\<close> and tagged with \<^verbatim>\<open>contentType\<close>.
\<close>

definition decode_blob :: "env \<Rightarrow> string \<Rightarrow> string \<Rightarrow> blob io" where
  "decode_blob e base64Data contentType =
     (if startsWith base64Data ''data:'' then
        io_call (FetchDataUrl base64Data) (fetch_data_url e base64Data)
      else
        (case atob (base64_payload base64Data) of
           None \<Rightarrow> (Raises (JsError (Some ''InvalidCharacterError'')), [])
         | Some byteCharacters \<Rightarrow>
             (Returns \<lparr> bytes = map of_char byteCharacters, blob_type = contentType \<rparr>, [])))"

definition blob_attempt :: "env \<Rightarrow> string \<Rightarrow> blob \<Rightarrow> string \<Rightarrow> nat \<Rightarrow> js_obj control io" where
  "blob_attempt e filename b contentType retryCount =
     io_try
       (io_bind (io_call (BlobPut filename b contentType) (blob_put e retryCount)) (\<lambda>url.
          (Returns (Done [(''url'', JStr url), (''error'', JNull)]), [])))
       (\<lambda>error. (Returns (Retry (Some error)), backoff (retryCount + 1)))"

definition blob_exhausted :: "js_error option \<Rightarrow> js_obj io" where
  "blob_exhausted lastError =
     (Returns [(''url'', JNull),
               (''error'', JStr ''Failed to upload file after multiple attempts'')],
      [ConsoleError ''[v0] Error uploading to blob after retries:''])"

function blob_loop ::
  "env \<Rightarrow> string \<Rightarrow> blob \<Rightarrow> string \<Rightarrow> nat \<Rightarrow> js_error option \<Rightarrow> js_obj io" where
  "blob_loop e filename b contentType retryCount lastError =
     (if retryCount < maxRetries then
        io_bind (blob_attempt e filename b contentType retryCount) (\<lambda>c.
          case c of
            Done r \<Rightarrow> (Returns r, [])
          | Retry err \<Rightarrow> blob_loop e filename b contentType (retryCount + 1) err)
      else blob_exhausted lastError)"
  by pat_completeness auto
termination
  by (relation "measure (\<lambda>(e, filename, b, contentType, retryCount, lastError).
                  maxRetries - retryCount)")
     auto

definition uploadToBlob :: "env \<Rightarrow> string \<Rightarrow> string \<Rightarrow> string \<Rightarrow> js_obj io" where
  "uploadToBlob e base64Data filename contentType =
     io_try
       (io_bind (decode_blob e base64Data contentType) (\<lambda>b.
          blob_loop e filename b contentType 0 None))
       (\<lambda>error.
          (Returns [(''url'', JNull), (''error'', JStr ''Failed to upload file'')],
           [ConsoleError ''[v0] Error uploading to blob:'']))"

subsection \<open>The retry loop the three actions spell out\<close>

text \<open>
  \<^verbatim>\<open>updateStopStatus\<close>, \<^verbatim>\<open>savePOD\<close> and \<^verbatim>\<open>uploadToBlob\<close> each contain their own
  copy of the same \<^verbatim>\<open>while (retryCount < maxRetries)\<close> loop. \<open>retry_loop\<close> is that
  loop with the body and the statements after the loop as parameters; the three copies
  are shown below to be instances of it.
\<close>

function retry_loop ::
  "(nat \<Rightarrow> 'a control io) \<Rightarrow> (js_error option \<Rightarrow> 'a io) \<Rightarrow> nat \<Rightarrow> js_error option \<Rightarrow> 'a io" where
  "retry_loop attempt exhausted retryCount lastError =
     (if retryCount < maxRetries then
        io_bind (attempt retryCount) (\<lambda>c.
          case c of
            Done r \<Rightarrow> (Returns r, [])
          | Retry err \<Rightarrow> retry_loop attempt exhausted (retryCount + 1) err)
      else exhausted lastError)"
  by pat_completeness auto
termination
  by (relation "measure (\<lambda>(attempt, exhausted, retryCount, lastError). maxRetries - retryCount)")
     auto

text \<open>One pass of the loop followed by the rest of the run.\<close>

definition next_pass :: "'a control io \<Rightarrow> (js_error option \<Rightarrow> 'a io) \<Rightarrow> 'a io" where
  "next_pass a rest = io_bind a (\<lambda>c. case c of Done r \<Rightarrow> (Returns r, []) | Retry err \<Rightarrow> rest err)"

subsection \<open>Observations on a run\<close>

fun is_identity_check :: "event \<Rightarrow> bool" where
  "is_identity_check AuthGetUser = True"
| "is_identity_check ev = False"

fun is_OrdersUpdate :: "event \<Rightarrow> bool" where
  "is_OrdersUpdate (OrdersUpdate orderId status updated_at) = True"
| "is_OrdersUpdate ev = False"

fun is_StopEventsInsert :: "event \<Rightarrow> bool" where
  "is_StopEventsInsert (StopEventsInsert orderId driverId status notes) = True"
| "is_StopEventsInsert ev = False"

fun is_PodsInsert :: "event \<Rightarrow> bool" where
  "is_PodsInsert (PodsInsert row) = True"
| "is_PodsInsert ev = False"

fun is_position_upsert :: "event \<Rightarrow> bool" where
  "is_position_upsert (RpcUpsertDriverPosition params) = True"
| "is_position_upsert ev = False"

fun is_BlobPut :: "event \<Rightarrow> bool" where
  "is_BlobPut (BlobPut filename b contentType) = True"
| "is_BlobPut ev = False"

fun is_FetchPodEmail :: "event \<Rightarrow> bool" where
  "is_FetchPodEmail (FetchPodEmail orderId podId) = True"
| "is_FetchPodEmail ev = False"

text \<open>A write: a call to the durable store or a blob put.\<close>

definition is_write :: "event \<Rightarrow> bool" where
  "is_write ev \<longleftrightarrow>
     is_OrdersUpdate ev \<or> is_StopEventsInsert ev \<or> is_PodsInsert ev \<or>
     is_position_upsert ev \<or> is_BlobPut ev"

fun sleeps :: "event list \<Rightarrow> nat list" where
  "sleeps [] = []"
| "sleeps (Sleep ms # t) = ms # sleeps t"
| "sleeps (ev # t) = sleeps t"

text \<open>
  \<open>checked_before_writes n t\<close>: with \<open>n\<close> identity checks already made, every write in
  \<open>t\<close> happens when exactly one identity check has been made.
\<close>

fun checked_before_writes :: "nat \<Rightarrow> event list \<Rightarrow> bool" where
  "checked_before_writes n [] = True"
| "checked_before_writes n (ev # t) =
     (if is_identity_check ev then checked_before_writes (Suc n) t
      else (is_write ev \<longrightarrow> n = 1) \<and> checked_before_writes n t)"

text \<open>The identity provider was asked and reported an error or no user.\<close>

definition identity_rejected :: "env \<Rightarrow> bool" where
  "identity_rejected e \<longleftrightarrow>
     createServerClient e = Returns () \<and>
     (case auth_getUser e of
        Returns resp \<Rightarrow> authError resp \<noteq> None \<or> auth_user resp = None
      | Raises x \<Rightarrow> False)"

definition is_auth_expired_failure :: "js_obj outcome \<Rightarrow> bool" where
  "is_auth_expired_failure r \<longleftrightarrow>
     (case r of
        Returns obj \<Rightarrow>
          map_of obj ''success'' = Some (JBool False) \<and>
          map_of obj ''code'' = Some (JStr ''AUTH_EXPIRED'')
      | Raises x \<Rightarrow> False)"

definition guarded_by_identity_check :: "env \<Rightarrow> js_obj io \<Rightarrow> bool" where
  "guarded_by_identity_check e r \<longleftrightarrow>
     length (filter is_identity_check (snd r)) \<le> 1 \<and>
     checked_before_writes 0 (snd r) \<and>
     (identity_rejected e \<longrightarrow>
        is_auth_expired_failure (fst r) \<and>
        length (filter is_identity_check (snd r)) = 1 \<and>
        filter is_write (snd r) = [])"

text \<open>
  The retry schedule in the spec's words: \<open>n\<close> attempts, and after the \<open>k\<close>-th attempt
  a sleep of \<open>1000 * k\<close> milliseconds when another attempt follows.
\<close>

datatype tick = Attempt | Wait nat

definition spec_retry_schedule :: "nat \<Rightarrow> tick list" where
  "spec_retry_schedule n =
     concat (map (\<lambda>k. Attempt # (if k < n then [Wait (1000 * k)] else [])) [1..<Suc n])"

fun tick_of :: "(event \<Rightarrow> bool) \<Rightarrow> event \<Rightarrow> tick list" where
  "tick_of store_op (Sleep ms) = [Wait ms]"
| "tick_of store_op ev = (if store_op ev then [Attempt] else [])"

definition ticks :: "(event \<Rightarrow> bool) \<Rightarrow> event list \<Rightarrow> tick list" where
  "ticks store_op t = concat (map (tick_of store_op) t)"

text \<open>
  An attempt of a retry loop succeeds when the wrapped store call returns without an
  error: \<^verbatim>\<open>if (!error)\<close> in \<^verbatim>\<open>updateStopStatus\<close>, \<^verbatim>\<open>if (!error && podData)\<close> in
  \<^verbatim>\<open>savePOD\<close>.
\<close>

definition status_attempt_succeeds :: "env \<Rightarrow> nat \<Rightarrow> bool" where
  "status_attempt_succeeds e k \<longleftrightarrow> orders_update e k = Returns None"

definition pod_attempt_succeeds :: "env \<Rightarrow> nat \<Rightarrow> bool" where
  "pod_attempt_succeeds e k \<longleftrightarrow>
     (case pods_insert e k of
        Returns resp \<Rightarrow> podError resp = None \<and> podData resp \<noteq> None
      | Raises x \<Rightarrow> False)"

definition follows_retry_policy :: "(event \<Rightarrow> bool) \<Rightarrow> (nat \<Rightarrow> bool) \<Rightarrow> js_obj io \<Rightarrow> bool" where
  "follows_retry_policy store_op succeeds r \<longleftrightarrow>
     (let n = length (filter store_op (snd r)) in
        n \<le> 3 \<and>
        length (sleeps (snd r)) \<le> 2 \<and>
        sleeps (snd r) = map (\<lambda>k. 1000 * k) [1..<n] \<and>
        ticks store_op (snd r) = spec_retry_schedule n \<and>
        (\<forall>k<3. succeeds k \<and> (\<forall>j<k. \<not> succeeds j) \<longrightarrow>
           n = Suc k \<and> fst r = Returns [(''success'', JBool True)]) \<and>
        ((\<forall>k<3. \<not> succeeds k) \<longrightarrow> n = 3))"

text \<open>The counting part of the policy alone: attempts and sleeps, whatever the outcome.\<close>

definition follows_retry_schedule :: "(event \<Rightarrow> bool) \<Rightarrow> js_obj io \<Rightarrow> bool" where
  "follows_retry_schedule store_op r \<longleftrightarrow>
     (let n = length (filter store_op (snd r)) in
        n \<le> 3 \<and>
        length (sleeps (snd r)) \<le> 2 \<and>
        sleeps (snd r) = map (\<lambda>k. 1000 * k) [1..<n] \<and>
        ticks store_op (snd r) = spec_retry_schedule n)"

text \<open>The declared result type \<^verbatim>\<open>ActionResponse\<close>, and what \<^verbatim>\<open>uploadToBlob\<close> returns.\<close>

fun is_JStr :: "js_val \<Rightarrow> bool" where
  "is_JStr (JStr s) = True"
| "is_JStr v = False"

definition is_ActionResponse :: "js_obj \<Rightarrow> bool" where
  "is_ActionResponse obj \<longleftrightarrow>
     (map_of obj ''success'' = Some (JBool True) \<and>
      list_all (\<lambda>k. k \<in> set [''success'', ''data'']) (map fst obj))
     \<or>
     (map_of obj ''success'' = Some (JBool False) \<and>
      (case map_of obj ''error'' of Some v \<Rightarrow> is_JStr v | None \<Rightarrow> False) \<and>
      (case map_of obj ''code'' of Some v \<Rightarrow> is_JStr v | None \<Rightarrow> True) \<and>
      list_all (\<lambda>k. k \<in> set [''success'', ''error'', ''code'']) (map fst obj))"

definition is_upload_result :: "js_obj \<Rightarrow> bool" where
  "is_upload_result obj \<longleftrightarrow>
     (case obj of
        [(k1, v1), (k2, v2)] \<Rightarrow>
          k1 = ''url'' \<and> k2 = ''error'' \<and>
          ((is_JStr v1 \<and> v2 = JNull) \<or> (v1 = JNull \<and> is_JStr v2))
      | _ \<Rightarrow> False)"

definition returns_shape :: "(js_obj \<Rightarrow> bool) \<Rightarrow> js_obj io \<Rightarrow> bool" where
  "returns_shape shape r \<longleftrightarrow> (case fst r of Returns obj \<Rightarrow> shape obj | Raises x \<Rightarrow> False)"

subsection \<open>Example environments\<close>

definition driver1 :: user where
  "driver1 = \<lparr> user_id = ''driver-1'' \<rparr>"

text \<open>Every collaborator answers without an error.\<close>

definition env_ok :: env where
  "env_ok =
     \<lparr> createServerClient = Returns (),
       auth_getUser = Returns \<lparr> auth_user = Some driver1, authError = None \<rparr>,
       orders_update = (\<lambda>k. Returns None),
       stop_events_insert = (\<lambda>k. Returns None),
       pods_insert = (\<lambda>k. Returns \<lparr> podData = Some \<lparr> pod_id = JStr ''pod-1'' \<rparr>, podError = None \<rparr>),
       rpc_upsert_driver_position = Returns None,
       blob_put = (\<lambda>k. Returns ''https://blob.example/a.png''),
       fetch_data_url = (\<lambda>s. Returns \<lparr> bytes = [], blob_type = ''text/plain'' \<rparr>),
       fetch_pod_email = (\<lambda>k. Returns (Raises (JsError (Some ''network'')))),
       NEXT_PUBLIC_ENABLE_POD_EMAIL = Some ''true'',
       now_iso = (\<lambda>k. ''2024-01-01T00:00:00.000Z'') \<rparr>"

text \<open>The session has lapsed: the identity provider reports no user.\<close>

definition env_no_user :: env where
  "env_no_user = env_ok \<lparr> auth_getUser := Returns \<lparr> auth_user = None, authError = None \<rparr> \<rparr>"

text \<open>The \<^verbatim>\<open>stop_events\<close> insert throws each time it is called.\<close>

definition env_audit_raises :: env where
  "env_audit_raises = env_ok \<lparr> stop_events_insert := (\<lambda>k. Raises (JsError (Some ''boom''))) \<rparr>"

text \<open>The position upsert reports an error.\<close>

definition env_rpc_error :: env where
  "env_rpc_error = env_ok \<lparr> rpc_upsert_driver_position := Returns (Some (JsError (Some ''timeout''))) \<rparr>"

text \<open>The first two store calls of a retry loop fail, the third succeeds.\<close>

definition env_third_time :: env where
  "env_third_time =
     env_ok \<lparr> orders_update := (\<lambda>k. if k < 2 then Returns (Some (JsError (Some ''timeout''))) else Returns None),
              pods_insert := (\<lambda>k. if k < 2 then Raises (JsError None)
                                   else Returns \<lparr> podData = Some \<lparr> pod_id = JStr ''pod-1'' \<rparr>, podError = None \<rparr>) \<rparr>"

definition env_auth_raises :: env where
  "env_auth_raises = env_ok \<lparr> auth_getUser := Raises (JsError (Some ''fetch failed'')) \<rparr>"

definition position_upsert_succeeds :: "env \<Rightarrow> nat \<Rightarrow> bool" where
  "position_upsert_succeeds e k \<longleftrightarrow> rpc_upsert_driver_position e = Returns None"

text \<open>The position upsert throws.\<close>

definition env_rpc_raises :: env where
  "env_rpc_raises = env_ok \<lparr> rpc_upsert_driver_position := Raises (JsError None) \<rparr>"

text \<open>A \<^verbatim>\<open>pods\<close> insert whose notes differ from \<open>pn\<close>.\<close>

fun writes_other_notes :: "string option \<Rightarrow> event \<Rightarrow> bool" where
  "writes_other_notes pn (PodsInsert row) = (pod_notes row \<noteq> pn)"
| "writes_other_notes pn ev = False"

text \<open>
  The calls made by the notification block of \<^verbatim>\<open>savePOD\<close>: its three
  \<^verbatim>\<open>console.log\<close> lines, the \<^verbatim>\<open>fetch\<close>, and the \<^verbatim>\<open>console.warn\<close> of its \<^verbatim>\<open>catch\<close>.
\<close>

fun is_dispatch_event :: "event \<Rightarrow> bool" where
  "is_dispatch_event (FetchPodEmail orderId podId) = True"
| "is_dispatch_event (ConsoleLog line) = True"
| "is_dispatch_event (ConsoleWarn line) = True"
| "is_dispatch_event ev = False"

definition not_dispatch_event :: "event \<Rightarrow> bool" where
  "not_dispatch_event ev \<longleftrightarrow> \<not> is_dispatch_event ev"

text \<open>The \<^verbatim>\<open>pods\<close> insert of pass \<open>k\<close> returned a row with a truthy \<^verbatim>\<open>id\<close> and no error.\<close>

definition pod_insert_produces_id :: "env \<Rightarrow> nat \<Rightarrow> bool" where
  "pod_insert_produces_id e k \<longleftrightarrow>
     (case pods_insert e k of
        Returns resp \<Rightarrow>
          podError resp = None \<and>
          (case podData resp of Some pd \<Rightarrow> truthy (pod_id pd) | None \<Rightarrow> False)
      | Raises x \<Rightarrow> False)"

section \<open>Basic facts\<close>

lemma fst_io_emit: "fst (io_emit es m) = fst m"
  by (cases m) simp

lemma snd_io_emit: "snd (io_emit es m) = es @ snd m"
  by (cases m) simp

lemma fst_io_bind:
  "fst (io_bind m f) = (case fst m of Raises x \<Rightarrow> Raises x | Returns v \<Rightarrow> fst (f v))"
  by (cases m; cases "fst m") (auto simp: fst_io_emit)

lemma snd_io_bind:
  "snd (io_bind m f) = snd m @ (case fst m of Raises x \<Rightarrow> [] | Returns v \<Rightarrow> snd (f v))"
  by (cases m; cases "fst m") (auto simp: snd_io_emit)

lemma fst_io_try:
  "fst (io_try m h) = (case fst m of Raises x \<Rightarrow> fst (h x) | Returns v \<Rightarrow> Returns v)"
  by (cases m; cases "fst m") (auto simp: fst_io_emit)

lemma snd_io_try:
  "snd (io_try m h) = snd m @ (case fst m of Raises x \<Rightarrow> snd (h x) | Returns v \<Rightarrow> [])"
  by (cases m; cases "fst m") (auto simp: snd_io_emit)

lemmas io_simps = fst_io_emit snd_io_emit fst_io_bind snd_io_bind fst_io_try snd_io_try

subsection \<open>The three loops are instances of the retry loop\<close>

declare retry_loop.simps [simp del] status_loop.simps [simp del] pod_loop.simps [simp del] blob_loop.simps [simp del]

lemma status_loop_retry:
  "status_loop e orderId status ns u k le =
   retry_loop (status_attempt e orderId status ns u) status_exhausted k le"
proof (induction e orderId status ns u k le rule: status_loop.induct)
  case (1 e orderId status ns u retryCount lastError)
  show ?case
  proof (cases "retryCount < maxRetries")
    case True
    have "status_loop e orderId status ns u (retryCount + 1) =
          retry_loop (status_attempt e orderId status ns u) status_exhausted (retryCount + 1)"
      using 1 True by (intro ext) blast
    with True show ?thesis
      by (subst status_loop.simps, subst retry_loop.simps) (simp cong: control.case_cong)
  next
    case False
    then show ?thesis
      by (subst status_loop.simps, subst retry_loop.simps) simp
  qed
qed

lemma pod_loop_retry:
  "pod_loop e orderId photoUrl signatureUrl pn u k le =
   retry_loop (pod_attempt e orderId photoUrl signatureUrl pn u) pod_exhausted k le"
proof (induction e orderId photoUrl signatureUrl pn u k le rule: pod_loop.induct)
  case (1 e orderId photoUrl signatureUrl pn u retryCount lastError)
  show ?case
  proof (cases "retryCount < maxRetries")
    case True
    have "pod_loop e orderId photoUrl signatureUrl pn u (retryCount + 1) =
          retry_loop (pod_attempt e orderId photoUrl signatureUrl pn u) pod_exhausted (retryCount + 1)"
      using 1 True by (intro ext) blast
    with True show ?thesis
      by (subst pod_loop.simps, subst retry_loop.simps) (simp cong: control.case_cong)
  next
    case False
    then show ?thesis
      by (subst pod_loop.simps, subst retry_loop.simps) simp
  qed
qed

lemma blob_loop_retry:
  "blob_loop e filename b contentType k le =
   retry_loop (blob_attempt e filename b contentType) blob_exhausted k le"
proof (induction e filename b contentType k le rule: blob_loop.induct)
  case (1 e filename b contentType retryCount lastError)
  show ?case
  proof (cases "retryCount < maxRetries")
    case True
    have "blob_loop e filename b contentType (retryCount + 1) =
          retry_loop (blob_attempt e filename b contentType) blob_exhausted (retryCount + 1)"
      using 1 True by (intro ext) blast
    with True show ?thesis
      by (subst blob_loop.simps, subst retry_loop.simps) (simp cong: control.case_cong)
  next
    case False
    then show ?thesis
      by (subst blob_loop.simps, subst retry_loop.simps) simp
  qed
qed

text \<open>With \<open>maxRetries = 3\<close> the loop entered at \<open>retryCount = 0\<close> is three nested passes.\<close>

lemma retry_loop_unroll:
  "retry_loop attempt exhausted 0 le =
     next_pass (attempt 0) (\<lambda>err. next_pass (attempt 1) (\<lambda>err. next_pass (attempt 2) exhausted))"
proof -
  have 3: "retry_loop attempt exhausted (Suc (Suc (Suc 0))) = exhausted"
    by (rule ext, subst retry_loop.simps) (simp add: maxRetries_def)
  have 2: "retry_loop attempt exhausted (Suc (Suc 0)) = (\<lambda>err. next_pass (attempt 2) exhausted)"
    by (rule ext, subst retry_loop.simps) (simp add: maxRetries_def next_pass_def 3 numeral_2_eq_2)
  have 1: "retry_loop attempt exhausted (Suc 0) =
           (\<lambda>err. next_pass (attempt 1) (\<lambda>err. next_pass (attempt 2) exhausted))"
    by (rule ext, subst retry_loop.simps) (simp add: maxRetries_def next_pass_def 2)
  show ?thesis
    by (subst retry_loop.simps) (simp add: maxRetries_def next_pass_def 1)
qed

subsection \<open>The retry policy\<close>

lemma all_less_3: "(\<forall>k<Suc (Suc (Suc 0)). P k) \<longleftrightarrow> P 0 \<and> P (Suc 0) \<and> P (Suc (Suc 0))"
  by (auto simp: less_Suc_eq)

lemma ex_less_3: "(\<exists>k<Suc (Suc (Suc 0)). P k) \<longleftrightarrow> P 0 \<or> P (Suc 0) \<or> P (Suc (Suc 0))"
  by (auto simp: less_Suc_eq)

lemma all_less_2: "(\<forall>k<Suc (Suc 0). P k) \<longleftrightarrow> P 0 \<and> P (Suc 0)"
  by (auto simp: less_Suc_eq)

lemma ex_less_2: "(\<exists>k<Suc (Suc 0). P k) \<longleftrightarrow> P 0 \<or> P (Suc 0)"
  by (auto simp: less_Suc_eq)

lemma fst_next_pass:
  "fst (next_pass a rest) =
     (case fst a of Raises x \<Rightarrow> Raises x | Returns (Done r) \<Rightarrow> Returns r | Returns (Retry err) \<Rightarrow> fst (rest err))"
  by (simp add: next_pass_def fst_io_bind split: outcome.splits control.splits)

lemma snd_next_pass:
  "snd (next_pass a rest) =
     snd a @ (case fst a of Returns (Retry err) \<Rightarrow> snd (rest err) | _ \<Rightarrow> [])"
  by (simp add: next_pass_def snd_io_bind split: outcome.splits control.splits)

lemma ticks_append: "ticks p (s @ t) = ticks p s @ ticks p t"
  by (simp add: ticks_def)

lemma ticks_Nil: "ticks p [] = []"
  by (simp add: ticks_def)

lemma ticks_Cons: "ticks p (ev # t) = tick_of p ev @ ticks p t"
  by (simp add: ticks_def)

lemma sleeps_append: "sleeps (s @ t) = sleeps s @ sleeps t"
  by (induction s rule: sleeps.induct) simp_all

lemma spec_retry_schedule_values:
  "spec_retry_schedule 0 = []"
  "spec_retry_schedule (Suc 0) = [Attempt]"
  "spec_retry_schedule (Suc (Suc 0)) = [Attempt, Wait 1000, Attempt]"
  "spec_retry_schedule (Suc (Suc (Suc 0))) = [Attempt, Wait 1000, Attempt, Wait 2000, Attempt]"
  by (simp_all add: spec_retry_schedule_def upt_rec)

lemma backoff_values:
  "backoff (Suc 0) = [Sleep 1000]"
  "backoff (Suc (Suc 0)) = [Sleep 2000]"
  "backoff (Suc (Suc (Suc 0))) = []"
  by (simp_all add: backoff_def maxRetries_def)

lemma retry_policy:
  assumes ok: "\<And>k. succeeds k \<Longrightarrow>
                 fst (attempt k) = Returns (Done [(''success'', JBool True)]) \<and>
                 ticks p (snd (attempt k)) = [Attempt] \<and>
                 sleeps (snd (attempt k)) = [] \<and>
                 length (filter p (snd (attempt k))) = 1"
    and ko: "\<And>k. \<not> succeeds k \<Longrightarrow>
                 (\<exists>err. fst (attempt k) = Returns (Retry err)) \<and>
                 ticks p (snd (attempt k)) = Attempt # ticks p (backoff (Suc k)) \<and>
                 sleeps (snd (attempt k)) = sleeps (backoff (Suc k)) \<and>
                 length (filter p (snd (attempt k))) = 1"
    and ex: "\<And>err. ticks p (snd (exhausted err)) = [] \<and> sleeps (snd (exhausted err)) = [] \<and>
                 filter p (snd (exhausted err)) = []"
  shows "follows_retry_policy p succeeds (retry_loop attempt exhausted 0 None)"
proof -
  note pass = fst_next_pass snd_next_pass ticks_append sleeps_append ticks_Nil ticks_Cons
    follows_retry_policy_def retry_loop_unroll spec_retry_schedule_values backoff_values
    all_less_3 ex_less_3 all_less_2 ex_less_2 numeral_2_eq_2 numeral_3_eq_3
  show ?thesis
  proof (cases "succeeds 0")
    case True
    from ok[OF True] show ?thesis
      by (simp add: pass True)
  next
    case f0: False
    from ko[OF f0] obtain e0 where e0: "fst (attempt 0) = Returns (Retry e0)" by blast
    show ?thesis
    proof (cases "succeeds (Suc 0)")
      case True
      from ok[OF True] ko[OF f0] e0 show ?thesis
        by (simp add: pass True f0)
    next
      case f1: False
      from ko[OF f1] obtain e1 where e1: "fst (attempt (Suc 0)) = Returns (Retry e1)" by blast
      show ?thesis
      proof (cases "succeeds (Suc (Suc 0))")
        case True
        from ok[OF True] ko[OF f0] ko[OF f1] e0 e1 show ?thesis
          by (simp add: pass True f0 f1)
      next
        case f2: False
        from ko[OF f2] obtain e2 where e2: "fst (attempt (Suc (Suc 0))) = Returns (Retry e2)" by blast
        from ko[OF f0] ko[OF f1] ko[OF f2] e0 e1 e2 ex show ?thesis
          by (simp add: pass f0 f1 f2)
      qed
    qed
  qed
qed

lemma sleeps_backoff_only [simp]: "sleeps [ev] = (case ev of Sleep ms \<Rightarrow> [ms] | _ \<Rightarrow> [])"
  by (cases ev) simp_all

text \<open>
  A pass of the loop of \<^verbatim>\<open>updateStopStatus\<close> reaches \<^verbatim>\<open>return { success: true }\<close>
  when the update returned without an error and the \<^verbatim>\<open>stop_events\<close> insert, which sits
  in the same \<^verbatim>\<open>try\<close>, did not raise; every other pass falls through to the next one.
\<close>

lemma status_attempt_ok:
  assumes "orders_update e k = Returns None \<and> is_Returns (stop_events_insert e k)"
  shows "fst (status_attempt e orderId status ns u k) = Returns (Done [(''success'', JBool True)]) \<and>
         ticks is_OrdersUpdate (snd (status_attempt e orderId status ns u k)) = [Attempt] \<and>
         sleeps (snd (status_attempt e orderId status ns u k)) = [] \<and>
         length (filter is_OrdersUpdate (snd (status_attempt e orderId status ns u k))) = 1"
proof -
  from assms obtain ee where "orders_update e k = Returns None" "stop_events_insert e k = Returns ee"
    by (cases "stop_events_insert e k") auto
  then show ?thesis
    by (cases ee) (simp_all add: status_attempt_def io_simps ticks_Cons ticks_Nil)
qed

lemma status_attempt_ko:
  assumes "\<not> (orders_update e k = Returns None \<and> is_Returns (stop_events_insert e k))"
  shows "(\<exists>err. fst (status_attempt e orderId status ns u k) = Returns (Retry err)) \<and>
         ticks is_OrdersUpdate (snd (status_attempt e orderId status ns u k)) =
           Attempt # ticks is_OrdersUpdate (backoff (Suc k)) \<and>
         sleeps (snd (status_attempt e orderId status ns u k)) = sleeps (backoff (Suc k)) \<and>
         length (filter is_OrdersUpdate (snd (status_attempt e orderId status ns u k))) = 1"
proof -
  have b: "filter is_OrdersUpdate (backoff n) = []" for n
    by (simp add: backoff_def)
  show ?thesis
    using assms
    by (cases "orders_update e k"; cases "stop_events_insert e k")
       (auto simp: status_attempt_def io_simps ticks_Cons ticks_Nil
          ticks_append sleeps_append b split: option.splits)
qed

lemma pod_email_dispatch_quiet:
  "is_Returns (fst (pod_email_dispatch e orderId pd k))"
  "ticks is_PodsInsert (snd (pod_email_dispatch e orderId pd k)) = []"
  "sleeps (snd (pod_email_dispatch e orderId pd k)) = []"
  "filter is_PodsInsert (snd (pod_email_dispatch e orderId pd k)) = []"
  by (cases "fetch_pod_email e k";
      simp add: pod_email_dispatch_def io_simps ticks_Cons ticks_Nil)+

lemma pod_attempt_ok:
  assumes "pod_attempt_succeeds e k"
  shows "fst (pod_attempt e orderId photoUrl signatureUrl pn u k) = Returns (Done [(''success'', JBool True)]) \<and>
         ticks is_PodsInsert (snd (pod_attempt e orderId photoUrl signatureUrl pn u k)) = [Attempt] \<and>
         sleeps (snd (pod_attempt e orderId photoUrl signatureUrl pn u k)) = [] \<and>
         length (filter is_PodsInsert (snd (pod_attempt e orderId photoUrl signatureUrl pn u k))) = 1"
proof -
  from assms obtain resp pd where r: "pods_insert e k = Returns resp" "podError resp = None"
      "podData resp = Some pd"
    by (cases "pods_insert e k") (auto simp: pod_attempt_succeeds_def)
  obtain v where v: "fst (pod_email_dispatch e orderId pd k) = Returns v"
    using pod_email_dispatch_quiet(1)[of e orderId pd k]
    by (cases "fst (pod_email_dispatch e orderId pd k)") simp_all
  from r v show ?thesis
    by (simp add: pod_attempt_def io_simps ticks_Cons ticks_Nil ticks_append sleeps_append
        pod_email_dispatch_quiet)
qed

lemma pod_attempt_ko:
  assumes "\<not> pod_attempt_succeeds e k"
  shows "(\<exists>err. fst (pod_attempt e orderId photoUrl signatureUrl pn u k) = Returns (Retry err)) \<and>
         ticks is_PodsInsert (snd (pod_attempt e orderId photoUrl signatureUrl pn u k)) =
           Attempt # ticks is_PodsInsert (backoff (Suc k)) \<and>
         sleeps (snd (pod_attempt e orderId photoUrl signatureUrl pn u k)) = sleeps (backoff (Suc k)) \<and>
         length (filter is_PodsInsert (snd (pod_attempt e orderId photoUrl signatureUrl pn u k))) = 1"
proof -
  have b: "filter is_PodsInsert (backoff n) = []" for n
    by (simp add: backoff_def)
  show ?thesis
    using assms
    by (cases "pods_insert e k")
       (auto simp: pod_attempt_succeeds_def pod_attempt_def io_simps ticks_Cons ticks_Nil
          ticks_append sleeps_append b split: option.splits)
qed

text \<open>
  For every behaviour of the collaborators both loops keep the schedule: at most three
  store invocations, at most two sleeps, the \<open>k\<close>-th of \<open>1000 * k\<close> milliseconds, and no
  sleep after the last attempt. The loop of \<^verbatim>\<open>savePOD\<close> returns on its first successful
  attempt (\<open>pod_loop_policy\<close>); the loop of \<^verbatim>\<open>updateStopStatus\<close> returns
  on the first attempt whose update succeeds and whose \<^verbatim>\<open>stop_events\<close> insert does not
  raise.
\<close>

lemma status_loop_policy_when_audit_returns:
  "follows_retry_policy is_OrdersUpdate
     (\<lambda>k. orders_update e k = Returns None \<and> is_Returns (stop_events_insert e k))
     (status_loop e orderId status ns u 0 None)"
  unfolding status_loop_retry
  by (rule retry_policy)
     (simp_all add: status_attempt_ok status_attempt_ko status_exhausted_def ticks_Cons ticks_Nil)

lemma pod_loop_policy:
  "follows_retry_policy is_PodsInsert (pod_attempt_succeeds e)
     (pod_loop e orderId photoUrl signatureUrl pn u 0 None)"
  unfolding pod_loop_retry
  by (rule retry_policy)
     (simp_all add: pod_attempt_ok pod_attempt_ko pod_exhausted_def ticks_Cons ticks_Nil)

lemma retry_loops_follow_schedule:
  "follows_retry_schedule is_OrdersUpdate (status_loop e orderId status ns u 0 None)"
  "follows_retry_schedule is_PodsInsert (pod_loop e orderId photoUrl signatureUrl pn u 0 None)"
  using status_loop_policy_when_audit_returns[of e orderId status ns u]
    pod_loop_policy[of e orderId photoUrl signatureUrl pn u]
  unfolding follows_retry_policy_def follows_retry_schedule_def Let_def
  by blast+

lemma audit_raises_loop_run:
  "status_loop env_audit_raises ''o1'' delivered None driver1 0 None =
     (Returns [(''success'', JBool False),
               (''error'', JStr ''Failed to update order status: boom'')],
      [OrdersUpdate ''o1'' delivered ''2024-01-01T00:00:00.000Z'',
       StopEventsInsert ''o1'' ''driver-1'' delivered None,
       Sleep 1000,
       OrdersUpdate ''o1'' delivered ''2024-01-01T00:00:00.000Z'',
       StopEventsInsert ''o1'' ''driver-1'' delivered None,
       Sleep 2000,
       OrdersUpdate ''o1'' delivered ''2024-01-01T00:00:00.000Z'',
       StopEventsInsert ''o1'' ''driver-1'' delivered None,
       ConsoleError ''[v0] Database error in updateStopStatus after retries:''])"
  by (simp add: status_loop_retry retry_loop_unroll next_pass_def status_attempt_def
      status_exhausted_def backoff_def maxRetries_def env_audit_raises_def env_ok_def driver1_def)

lemma audit_raises_first_attempt_succeeds: "status_attempt_succeeds env_audit_raises 0"
  by (simp add: status_attempt_succeeds_def env_audit_raises_def env_ok_def)

text \<open>
  With success being that of the wrapped store call, the loop of \<^verbatim>\<open>updateStopStatus\<close>
  does not follow the whole policy on that run.
\<close>

lemma audit_raises_breaks_policy:
  "\<not> follows_retry_policy is_OrdersUpdate (status_attempt_succeeds env_audit_raises)
       (status_loop env_audit_raises ''o1'' delivered None driver1 0 None)"
proof
  assume "follows_retry_policy is_OrdersUpdate (status_attempt_succeeds env_audit_raises)
            (status_loop env_audit_raises ''o1'' delivered None driver1 0 None)"
  then have "\<forall>k<3. status_attempt_succeeds env_audit_raises k \<and>
               (\<forall>j<k. \<not> status_attempt_succeeds env_audit_raises j) \<longrightarrow>
             length (filter is_OrdersUpdate
               (snd (status_loop env_audit_raises ''o1'' delivered None driver1 0 None))) = Suc k"
    unfolding follows_retry_policy_def Let_def by blast
  with audit_raises_first_attempt_succeeds
  have "length (filter is_OrdersUpdate
      (snd (status_loop env_audit_raises ''o1'' delivered None driver1 0 None))) = Suc 0"
    by auto
  then show False
    by (simp add: audit_raises_loop_run)
qed

text \<open>
  Claim C2 fails on the code, in its last clause, for the loop of \<^verbatim>\<open>updateStopStatus\<close>.
  With a status update that succeeds on every call and a \<^verbatim>\<open>stop_events\<close> insert that
  throws, the first attempt is successful, yet the loop does not return there: it makes
  three attempts, sleeping 1000 and 2000 milliseconds in between, and ends in the
  failure after the loop.
\<close>

theorem successful_update_is_retried:
  "status_attempt_succeeds env_audit_raises 0 \<and>
   status_loop env_audit_raises ''o1'' delivered None driver1 0 None =
     (Returns [(''success'', JBool False),
               (''error'', JStr ''Failed to update order status: boom'')],
      [OrdersUpdate ''o1'' delivered ''2024-01-01T00:00:00.000Z'',
       StopEventsInsert ''o1'' ''driver-1'' delivered None,
       Sleep 1000,
       OrdersUpdate ''o1'' delivered ''2024-01-01T00:00:00.000Z'',
       StopEventsInsert ''o1'' ''driver-1'' delivered None,
       Sleep 2000,
       OrdersUpdate ''o1'' delivered ''2024-01-01T00:00:00.000Z'',
       StopEventsInsert ''o1'' ''driver-1'' delivered None,
       ConsoleError ''[v0] Database error in updateStopStatus after retries:'']) \<and>
   length (filter is_OrdersUpdate
     (snd (status_loop env_audit_raises ''o1'' delivered None driver1 0 None))) = 3 \<and>
   sleeps (snd (status_loop env_audit_raises ''o1'' delivered None driver1 0 None)) = [1000, 2000]"
  using audit_raises_first_attempt_succeeds
  by (simp add: audit_raises_loop_run)

lemma retry_loop_shape:
  assumes a: "\<And>k. case fst (attempt k) of Returns (Done r) \<Rightarrow> P r | Returns (Retry err) \<Rightarrow> True | Raises x \<Rightarrow> False"
    and x: "\<And>err. case fst (exhausted err) of Returns r \<Rightarrow> P r | Raises x \<Rightarrow> False"
  shows "case fst (retry_loop attempt exhausted k le) of Returns r \<Rightarrow> P r | Raises x \<Rightarrow> False"
  using a x
proof (induction attempt exhausted k le rule: retry_loop.induct)
  case (1 attempt exhausted retryCount lastError)
  show ?case
  proof (cases "retryCount < maxRetries")
    case True
    show ?thesis
    proof (cases "fst (attempt retryCount)")
      case (Raises x)
      with 1(2)[of retryCount] show ?thesis by simp
    next
      case (Returns c)
      show ?thesis
      proof (cases c)
        case (Done r)
        with Returns True 1(2)[of retryCount] show ?thesis
          by (subst retry_loop.simps) (simp add: fst_io_bind)
      next
        case (Retry err)
        with Returns True 1(1)[OF True 1(2) 1(3), of err] show ?thesis
          by (subst retry_loop.simps) (simp add: fst_io_bind)
      qed
    qed
  next
    case False
    with 1(3)[of lastError] show ?thesis
      by (subst retry_loop.simps) simp
  qed
qed

lemma retry_loop_filter_Nil:
  assumes a: "\<And>k. filter p (snd (attempt k)) = []"
    and x: "\<And>err. filter p (snd (exhausted err)) = []"
  shows "filter p (snd (retry_loop attempt exhausted k le)) = []"
  using a x
proof (induction attempt exhausted k le rule: retry_loop.induct)
  case (1 attempt exhausted retryCount lastError)
  show ?case
  proof (cases "retryCount < maxRetries")
    case True
    show ?thesis
    proof (cases "fst (attempt retryCount)")
      case (Raises x)
      with True 1(2)[of retryCount] show ?thesis
        by (subst retry_loop.simps) (simp add: snd_io_bind)
    next
      case (Returns c)
      show ?thesis
      proof (cases c)
        case (Done r)
        with Returns True 1(2)[of retryCount] show ?thesis
          by (subst retry_loop.simps) (simp add: snd_io_bind)
      next
        case (Retry err)
        with Returns True 1(2)[of retryCount] 1(1)[OF True 1(2) 1(3), of err] show ?thesis
          by (subst retry_loop.simps) (simp add: snd_io_bind)
      qed
    qed
  next
    case False
    with 1(3)[of lastError] show ?thesis
      by (subst retry_loop.simps) simp
  qed
qed

lemma is_ActionResponse_success: "is_ActionResponse [(''success'', JBool True)]"
  by (simp add: is_ActionResponse_def)

lemma is_ActionResponse_failure: "is_ActionResponse [(''success'', JBool False), (''error'', JStr m)]"
  by (simp add: is_ActionResponse_def)

lemma is_ActionResponse_failure_code:
  "is_ActionResponse [(''success'', JBool False), (''error'', JStr m), (''code'', JStr c)]"
  by (simp add: is_ActionResponse_def)

lemmas is_ActionResponse_intros =
  is_ActionResponse_success is_ActionResponse_failure is_ActionResponse_failure_code

lemma status_attempt_shape:
  "case fst (status_attempt e orderId status ns u k) of
     Returns (Done r) \<Rightarrow> r = [(''success'', JBool True)]
   | Returns (Retry err) \<Rightarrow> True
   | Raises x \<Rightarrow> False"
  by (cases "orders_update e k"; cases "stop_events_insert e k")
     (auto simp: status_attempt_def io_simps split: option.splits)

lemma pod_attempt_shape:
  "case fst (pod_attempt e orderId photoUrl signatureUrl pn u k) of
     Returns (Done r) \<Rightarrow> r = [(''success'', JBool True)]
   | Returns (Retry err) \<Rightarrow> True
   | Raises x \<Rightarrow> False"
proof (cases "pod_attempt_succeeds e k")
  case True
  then show ?thesis using pod_attempt_ok[OF True, of orderId photoUrl signatureUrl pn u] by simp
next
  case False
  then show ?thesis using pod_attempt_ko[OF False, of orderId photoUrl signatureUrl pn u] by auto
qed

lemma blob_attempt_shape:
  "case fst (blob_attempt e filename b contentType k) of
     Returns (Done r) \<Rightarrow> is_upload_result r
   | Returns (Retry err) \<Rightarrow> True
   | Raises x \<Rightarrow> False"
  by (cases "blob_put e k") (simp_all add: blob_attempt_def io_simps is_upload_result_def)

lemma status_loop_shape:
  "case fst (status_loop e orderId status ns u k le) of
     Returns r \<Rightarrow> is_ActionResponse r | Raises x \<Rightarrow> False"
  unfolding status_loop_retry
proof (rule retry_loop_shape)
  fix k
  show "case fst (status_attempt e orderId status ns u k) of
          Returns (Done r) \<Rightarrow> is_ActionResponse r | Returns (Retry err) \<Rightarrow> True | Raises x \<Rightarrow> False"
    using status_attempt_shape[of e orderId status ns u k]
    by (auto simp: is_ActionResponse_intros split: outcome.splits control.splits)
next
  fix err
  show "case fst (status_exhausted err) of Returns r \<Rightarrow> is_ActionResponse r | Raises x \<Rightarrow> False"
    by (simp add: status_exhausted_def is_ActionResponse_def)
qed

lemma pod_loop_shape:
  "case fst (pod_loop e orderId photoUrl signatureUrl pn u k le) of
     Returns r \<Rightarrow> is_ActionResponse r | Raises x \<Rightarrow> False"
  unfolding pod_loop_retry
proof (rule retry_loop_shape)
  fix k
  show "case fst (pod_attempt e orderId photoUrl signatureUrl pn u k) of
          Returns (Done r) \<Rightarrow> is_ActionResponse r | Returns (Retry err) \<Rightarrow> True | Raises x \<Rightarrow> False"
    using pod_attempt_shape[of e orderId photoUrl signatureUrl pn u k]
    by (auto simp: is_ActionResponse_intros split: outcome.splits control.splits)
next
  fix err
  show "case fst (pod_exhausted err) of Returns r \<Rightarrow> is_ActionResponse r | Raises x \<Rightarrow> False"
    by (simp add: pod_exhausted_def is_ActionResponse_def)
qed

lemma blob_loop_shape:
  "case fst (blob_loop e filename b contentType k le) of
     Returns r \<Rightarrow> is_upload_result r | Raises x \<Rightarrow> False"
  unfolding blob_loop_retry
  by (rule retry_loop_shape) (simp_all add: blob_attempt_shape blob_exhausted_def is_upload_result_def)

lemma status_loop_Returns:
  "fst (status_loop e orderId status ns u k le) = Returns r \<Longrightarrow> is_ActionResponse r"
  "fst (status_loop e orderId status ns u k le) \<noteq> Raises x"
  using status_loop_shape[of e orderId status ns u k le] by (auto split: outcome.splits)

lemma pod_loop_Returns:
  "fst (pod_loop e orderId photoUrl signatureUrl pn u k le) = Returns r \<Longrightarrow> is_ActionResponse r"
  "fst (pod_loop e orderId photoUrl signatureUrl pn u k le) \<noteq> Raises x"
  using pod_loop_shape[of e orderId photoUrl signatureUrl pn u k le] by (auto split: outcome.splits)

lemma blob_loop_Returns:
  "fst (blob_loop e filename b contentType k le) = Returns r \<Longrightarrow> is_upload_result r"
  "fst (blob_loop e filename b contentType k le) \<noteq> Raises x"
  using blob_loop_shape[of e filename b contentType k le] by (auto split: outcome.splits)

lemma updateStopStatus_shape: "returns_shape is_ActionResponse (updateStopStatus e orderId status ns)"
  by (cases "createServerClient e"; cases "auth_getUser e")
     (auto simp: returns_shape_def updateStopStatus_def updateStopStatus_body_def io_simps
        is_ActionResponse_intros auth_expired_def status_loop_Returns
        split: option.splits outcome.splits)

lemma savePOD_shape:
  "returns_shape is_ActionResponse (savePOD e orderId photoUrl signatureUrl ns recipientName)"
  by (cases "createServerClient e"; cases "auth_getUser e")
     (auto simp: returns_shape_def savePOD_def savePOD_body_def io_simps
        is_ActionResponse_intros auth_expired_def pod_loop_Returns
        split: option.splits outcome.splits)

lemma updateDriverPosition_shape:
  "returns_shape is_ActionResponse (updateDriverPosition e lat lng accuracy)"
  by (cases "createServerClient e"; cases "auth_getUser e"; cases "rpc_upsert_driver_position e")
     (auto simp: returns_shape_def updateDriverPosition_def updateDriverPosition_body_def io_simps
        is_ActionResponse_intros split: option.splits outcome.splits)

lemma uploadToBlob_shape:
  "returns_shape is_upload_result (uploadToBlob e base64Data filename contentType)"
  by (cases "fst (decode_blob e base64Data contentType)")
     (auto simp: returns_shape_def uploadToBlob_def io_simps blob_loop_Returns
        is_upload_result_def[of "[(''url'', JNull), (''error'', JStr ''Failed to upload file'')]"]
        split: outcome.splits)

lemma is_upload_resultD:
  assumes "is_upload_result r"
  obtains v1 v2 where "r = [(''url'', v1), (''error'', v2)]"
proof (cases r)
  case Nil
  with assms show ?thesis by (simp add: is_upload_result_def)
next
  case (Cons f1 r1)
  show ?thesis
  proof (cases r1)
    case Nil
    with Cons assms show ?thesis by (cases f1) (simp add: is_upload_result_def)
  next
    case c2: (Cons f2 r2)
    show ?thesis
    proof (cases r2)
      case Nil
      with Cons c2 assms that show ?thesis
        by (cases f1; cases f2) (simp add: is_upload_result_def)
    next
      case c3: (Cons f3 r3)
      with Cons c2 assms show ?thesis
        by (cases f1; cases f2) (simp add: is_upload_result_def)
    qed
  qed
qed

lemma upload_result_not_ActionResponse:
  assumes "is_upload_result r"
  shows "\<not> is_ActionResponse r"
proof -
  from assms obtain v1 v2 where "r = [(''url'', v1), (''error'', v2)]"
    by (rule is_upload_resultD)
  then show ?thesis
    by (simp add: is_ActionResponse_def)
qed

text \<open>
  Claim C5, as amended. For every input and every behaviour of the collaborators,
  \<^verbatim>\<open>updateStopStatus\<close>, \<^verbatim>\<open>savePOD\<close> and \<^verbatim>\<open>updateDriverPosition\<close> return a value of
  the shape \<^verbatim>\<open>{ success: true, data? } | { success: false, error, code? }\<close>.
  \<^verbatim>\<open>uploadToBlob\<close> returns \<^verbatim>\<open>{ url, error: null }\<close> or \<^verbatim>\<open>{ url: null, error }\<close>,
  which has no \<^verbatim>\<open>success\<close> field and is never of that shape.
\<close>

theorem result_shapes:
  "returns_shape is_ActionResponse (updateStopStatus e orderId status ns) \<and>
   returns_shape is_ActionResponse (savePOD e orderId photoUrl signatureUrl ns recipientName) \<and>
   returns_shape is_ActionResponse (updateDriverPosition e lat lng accuracy) \<and>
   returns_shape is_upload_result (uploadToBlob e base64Data filename contentType) \<and>
   \<not> returns_shape is_ActionResponse (uploadToBlob e base64Data filename contentType)"
proof -
  have "\<not> returns_shape is_ActionResponse (uploadToBlob e base64Data filename contentType)"
    using uploadToBlob_shape[of e base64Data filename contentType]
    by (auto simp: returns_shape_def upload_result_not_ActionResponse split: outcome.splits)
  then show ?thesis
    by (simp add: updateStopStatus_shape savePOD_shape updateDriverPosition_shape uploadToBlob_shape)
qed

lemma atob_QQ: "atob ''QQ=='' = Some ''A''"
  by code_simp

lemma atob_empty: "atob [] = Some []"
  by code_simp

lemma upload_QQ:
  "uploadToBlob env_ok ''QQ=='' ''a.png'' ''image/png'' =
     (Returns [(''url'', JStr ''https://blob.example/a.png''), (''error'', JNull)],
      [BlobPut ''a.png'' \<lparr> bytes = [65], blob_type = ''image/png'' \<rparr> ''image/png''])"
  by (simp add: uploadToBlob_def decode_blob_def base64_payload_def atob_QQ blob_loop_retry
      retry_loop_unroll next_pass_def blob_attempt_def env_ok_def)

text \<open>
  Claim C5 as stated fails for \<^verbatim>\<open>uploadToBlob\<close>: a successful upload of the one-byte
  payload \<^verbatim>\<open>"QQ=="\<close> returns \<^verbatim>\<open>{ url, error: null }\<close>.
\<close>

theorem uploadToBlob_shape_counterexample:
  "\<not> returns_shape is_ActionResponse (uploadToBlob env_ok ''QQ=='' ''a.png'' ''image/png'')"
  by (simp add: upload_QQ returns_shape_def is_ActionResponse_def)

theorem result_shapes_witness:
  "returns_shape is_ActionResponse (updateStopStatus env_third_time ''o1'' delivered None) \<and>
   returns_shape is_ActionResponse (savePOD env_third_time ''o1'' None None None None) \<and>
   returns_shape is_ActionResponse (updateDriverPosition env_rpc_error (Num 1) (Num 2) None) \<and>
   returns_shape is_upload_result (uploadToBlob env_ok ''QQ=='' ''a.png'' ''image/png'')"
  using result_shapes [of env_third_time "''o1''" delivered None None None None]
    result_shapes [of env_rpc_error _ _ _ _ _ _ "Num 1" "Num 2" None]
    result_shapes [of env_ok _ _ _ _ _ _ _ _ _ "''QQ==''" "''a.png''" "''image/png''"]
  by simp

text \<open>
  Claim C8. No action raises past its own boundary: for every input and every behaviour
  of the collaborators, raising ones included, each of the four actions returns a value.
  A raise that no inner branch handles (creating the client, the identity lookup, the
  position upsert, decoding the payload) is converted by the outermost \<^verbatim>\<open>catch\<close>
  into the action's generic failure value.
\<close>

theorem no_raise_past_boundary:
  "is_Returns (fst (updateStopStatus e orderId status ns)) \<and>
   is_Returns (fst (savePOD e orderId photoUrl signatureUrl ns recipientName)) \<and>
   is_Returns (fst (uploadToBlob e base64Data filename contentType)) \<and>
   is_Returns (fst (updateDriverPosition e lat lng accuracy)) \<and>
   (\<not> is_Returns (createServerClient e) \<or> \<not> is_Returns (auth_getUser e) \<longrightarrow>
      fst (updateStopStatus e orderId status ns) =
        Returns [(''success'', JBool False),
                 (''error'', JStr ''An unexpected error occurred. Please try again.'')] \<and>
      fst (savePOD e orderId photoUrl signatureUrl ns recipientName) =
        Returns [(''success'', JBool False),
                 (''error'', JStr ''An unexpected error occurred. Please try again.'')] \<and>
      fst (updateDriverPosition e lat lng accuracy) =
        Returns [(''success'', JBool False), (''error'', JStr ''An unexpected error occurred'')]) \<and>
   (createServerClient e = Returns () \<and>
    auth_getUser e = Returns \<lparr> auth_user = Some u, authError = None \<rparr> \<and>
    \<not> is_Returns (rpc_upsert_driver_position e) \<longrightarrow>
      fst (updateDriverPosition e lat lng accuracy) =
        Returns [(''success'', JBool False), (''error'', JStr ''An unexpected error occurred'')]) \<and>
   (\<not> is_Returns (fst (decode_blob e base64Data contentType)) \<longrightarrow>
      fst (uploadToBlob e base64Data filename contentType) =
        Returns [(''url'', JNull), (''error'', JStr ''Failed to upload file'')])"
proof -
  have r: "is_Returns (fst m)" if "returns_shape P m" for P and m :: "js_obj io"
    using that by (cases "fst m") (simp_all add: returns_shape_def)
  have 1: "is_Returns (fst (updateStopStatus e orderId status ns))"
    by (rule r[OF updateStopStatus_shape])
  have 2: "is_Returns (fst (savePOD e orderId photoUrl signatureUrl ns recipientName))"
    by (rule r[OF savePOD_shape])
  have 3: "is_Returns (fst (uploadToBlob e base64Data filename contentType))"
    by (rule r[OF uploadToBlob_shape])
  have 4: "is_Returns (fst (updateDriverPosition e lat lng accuracy))"
    by (rule r[OF updateDriverPosition_shape])
  have 5: "fst (updateStopStatus e orderId status ns) =
        Returns [(''success'', JBool False),
                 (''error'', JStr ''An unexpected error occurred. Please try again.'')]"
    if "\<not> is_Returns (createServerClient e) \<or> \<not> is_Returns (auth_getUser e)"
    using that
    by (cases "createServerClient e"; cases "auth_getUser e")
       (simp_all add: updateStopStatus_def updateStopStatus_body_def io_simps)
  have 6: "fst (savePOD e orderId photoUrl signatureUrl ns recipientName) =
        Returns [(''success'', JBool False),
                 (''error'', JStr ''An unexpected error occurred. Please try again.'')]"
    if "\<not> is_Returns (createServerClient e) \<or> \<not> is_Returns (auth_getUser e)"
    using that
    by (cases "createServerClient e"; cases "auth_getUser e")
       (simp_all add: savePOD_def savePOD_body_def io_simps)
  have 7: "fst (updateDriverPosition e lat lng accuracy) =
        Returns [(''success'', JBool False), (''error'', JStr ''An unexpected error occurred'')]"
    if "\<not> is_Returns (createServerClient e) \<or> \<not> is_Returns (auth_getUser e)"
    using that
    by (cases "createServerClient e"; cases "auth_getUser e")
       (simp_all add: updateDriverPosition_def updateDriverPosition_body_def io_simps)
  have 8: "fst (updateDriverPosition e lat lng accuracy) =
        Returns [(''success'', JBool False), (''error'', JStr ''An unexpected error occurred'')]"
    if "createServerClient e = Returns ()"
      "auth_getUser e = Returns \<lparr> auth_user = Some u, authError = None \<rparr>"
      "\<not> is_Returns (rpc_upsert_driver_position e)"
    using that
    by (cases "rpc_upsert_driver_position e")
       (simp_all add: updateDriverPosition_def updateDriverPosition_body_def io_simps)
  have 9: "fst (uploadToBlob e base64Data filename contentType) =
        Returns [(''url'', JNull), (''error'', JStr ''Failed to upload file'')]"
    if "\<not> is_Returns (fst (decode_blob e base64Data contentType))"
    using that
    by (cases "fst (decode_blob e base64Data contentType)")
       (simp_all add: uploadToBlob_def io_simps)
  show ?thesis
    using 1 2 3 4 5 6 7 8 9 by blast
qed

lemma atob_malformed: "atob ''x,'' = None"
  by code_simp

lemma decode_malformed:
  "decode_blob e ''x,'' contentType = (Raises (JsError (Some ''InvalidCharacterError'')), [])"
  by (simp add: decode_blob_def base64_payload_def atob_malformed)

theorem no_raise_past_boundary_witness:
  "\<not> is_Returns (auth_getUser env_auth_raises) \<and>
   fst (updateStopStatus env_auth_raises ''o1'' delivered None) =
     Returns [(''success'', JBool False),
              (''error'', JStr ''An unexpected error occurred. Please try again.'')] \<and>
   fst (savePOD env_auth_raises ''o1'' None None None None) =
     Returns [(''success'', JBool False),
              (''error'', JStr ''An unexpected error occurred. Please try again.'')] \<and>
   fst (updateDriverPosition env_auth_raises (Num 1) (Num 2) None) =
     Returns [(''success'', JBool False), (''error'', JStr ''An unexpected error occurred'')] \<and>
   \<not> is_Returns (rpc_upsert_driver_position env_rpc_raises) \<and>
   fst (updateDriverPosition env_rpc_raises (Num 1) (Num 2) None) =
     Returns [(''success'', JBool False), (''error'', JStr ''An unexpected error occurred'')] \<and>
   \<not> is_Returns (fst (decode_blob env_ok ''x,'' ''image/png'')) \<and>
   fst (uploadToBlob env_ok ''x,'' ''a.png'' ''image/png'') =
     Returns [(''url'', JNull), (''error'', JStr ''Failed to upload file'')]"
proof -
  have h1: "\<not> is_Returns (auth_getUser env_auth_raises)"
    by (simp add: env_auth_raises_def)
  have h2: "createServerClient env_rpc_raises = Returns ()"
    "auth_getUser env_rpc_raises = Returns \<lparr> auth_user = Some driver1, authError = None \<rparr>"
    "\<not> is_Returns (rpc_upsert_driver_position env_rpc_raises)"
    by (simp_all add: env_rpc_raises_def env_ok_def)
  have h3: "\<not> is_Returns (fst (decode_blob env_ok ''x,'' ''image/png''))"
    by (simp add: decode_malformed)
  show ?thesis
    using h1 h2 h3
      no_raise_past_boundary [of env_auth_raises "''o1''" delivered None None None None
        "[]" "[]" "[]" "Num 1" "Num 2" None driver1]
      no_raise_past_boundary [of env_rpc_raises "''o1''" delivered None None None None
        "[]" "[]" "[]" "Num 1" "Num 2" None driver1]
      no_raise_past_boundary [of env_ok "''o1''" delivered None None None None
        "''x,''" "''a.png''" "''image/png''" "Num 1" "Num 2" None driver1]
    by blast
qed

text \<open>
  Claim C10. In \<^verbatim>\<open>updateDriverPosition\<close> an accuracy of \<open>0\<close> is coerced to \<^verbatim>\<open>null\<close> by
  \<^verbatim>\<open>accuracy || null\<close>: the parameters of the upsert, and with them the whole run, are
  the same whether the caller passed \<open>0\<close> or omitted the accuracy, and when the identity
  check passes the store receives \<^verbatim>\<open>p_accuracy = null\<close>.
\<close>

theorem accuracy_zero_coerced_to_null:
  "p_accuracy (position_rpc_params u lat lng (Some (Num 0))) = None \<and>
   position_rpc_params u lat lng (Some (Num 0)) = position_rpc_params u lat lng None \<and>
   updateDriverPosition e lat lng (Some (Num 0)) = updateDriverPosition e lat lng None \<and>
   (createServerClient e = Returns () \<and>
    auth_getUser e = Returns \<lparr> auth_user = Some u, authError = None \<rparr> \<longrightarrow>
      filter is_position_upsert (snd (updateDriverPosition e lat lng (Some (Num 0)))) =
        [RpcUpsertDriverPosition
           \<lparr> p_driver_id = user_id u, p_lat = lat, p_lng = lng, p_accuracy = None \<rparr>])"
proof -
  have p: "position_rpc_params u lat lng (Some (Num 0)) = position_rpc_params u lat lng None" for u
    by (simp add: position_rpc_params_def)
  have a: "p_accuracy (position_rpc_params u lat lng (Some (Num 0))) = None"
    by (simp add: position_rpc_params_def)
  have r: "updateDriverPosition e lat lng (Some (Num 0)) = updateDriverPosition e lat lng None"
    unfolding updateDriverPosition_def updateDriverPosition_body_def p ..
  have t: "filter is_position_upsert (snd (updateDriverPosition e lat lng (Some (Num 0)))) =
        [RpcUpsertDriverPosition
           \<lparr> p_driver_id = user_id u, p_lat = lat, p_lng = lng, p_accuracy = None \<rparr>]"
    if "createServerClient e = Returns ()"
      "auth_getUser e = Returns \<lparr> auth_user = Some u, authError = None \<rparr>"
    using that
    by (cases "rpc_upsert_driver_position e")
       (auto simp: updateDriverPosition_def updateDriverPosition_body_def io_simps
          position_rpc_params_def split: option.splits)
  show ?thesis
    using p a r t by blast
qed

theorem accuracy_zero_coerced_to_null_witness:
  "createServerClient env_ok = Returns () \<and>
   auth_getUser env_ok = Returns \<lparr> auth_user = Some driver1, authError = None \<rparr> \<and>
   updateDriverPosition env_ok (Num 43) (Num (-79)) (Some (Num 0)) =
     updateDriverPosition env_ok (Num 43) (Num (-79)) None \<and>
   filter is_position_upsert (snd (updateDriverPosition env_ok (Num 43) (Num (-79)) (Some (Num 0)))) =
     [RpcUpsertDriverPosition
        \<lparr> p_driver_id = user_id driver1, p_lat = Num 43, p_lng = Num (-79), p_accuracy = None \<rparr>]"
proof -
  have h: "createServerClient env_ok = Returns ()"
    "auth_getUser env_ok = Returns \<lparr> auth_user = Some driver1, authError = None \<rparr>"
    by (simp_all add: env_ok_def)
  show ?thesis
    using h accuracy_zero_coerced_to_null [of driver1 "Num 43" "Num (-79)" env_ok]
    by blast
qed

text \<open>
  Claim C6, as amended. \<^verbatim>\<open>updateDriverPosition\<close> attempts the position upsert at most
  once and never sleeps: there is no retry loop around it. When the upsert reports an
  error the action returns \<^verbatim>\<open>"Failed to update position"\<close> after that single attempt.
\<close>

theorem position_upsert_single_attempt:
  "length (filter is_position_upsert (snd (updateDriverPosition e lat lng accuracy))) \<le> 1 \<and>
   sleeps (snd (updateDriverPosition e lat lng accuracy)) = [] \<and>
   (createServerClient e = Returns () \<and>
    auth_getUser e = Returns \<lparr> auth_user = Some u, authError = None \<rparr> \<and>
    rpc_upsert_driver_position e = Returns (Some err) \<longrightarrow>
      updateDriverPosition e lat lng accuracy =
        (Returns [(''success'', JBool False), (''error'', JStr ''Failed to update position'')],
         [CreateServerClient, AuthGetUser,
          RpcUpsertDriverPosition (position_rpc_params u lat lng accuracy),
          ConsoleError ''[v0] Error updating driver position:'']))"
  by (cases "createServerClient e"; cases "auth_getUser e"; cases "rpc_upsert_driver_position e")
     (auto simp: updateDriverPosition_def updateDriverPosition_body_def io_simps
        split: option.splits)

lemma position_rpc_error_run:
  "updateDriverPosition env_rpc_error (Num 1) (Num 2) None =
     (Returns [(''success'', JBool False), (''error'', JStr ''Failed to update position'')],
      [CreateServerClient, AuthGetUser,
       RpcUpsertDriverPosition \<lparr> p_driver_id = ''driver-1'', p_lat = Num 1, p_lng = Num 2, p_accuracy = None \<rparr>,
       ConsoleError ''[v0] Error updating driver position:''])"
  by (simp add: updateDriverPosition_def updateDriverPosition_body_def env_rpc_error_def env_ok_def
      driver1_def position_rpc_params_def)

theorem position_upsert_single_attempt_witness:
  "createServerClient env_rpc_error = Returns () \<and>
   auth_getUser env_rpc_error = Returns \<lparr> auth_user = Some driver1, authError = None \<rparr> \<and>
   rpc_upsert_driver_position env_rpc_error = Returns (Some (JsError (Some ''timeout''))) \<and>
   updateDriverPosition env_rpc_error (Num 1) (Num 2) None =
     (Returns [(''success'', JBool False), (''error'', JStr ''Failed to update position'')],
      [CreateServerClient, AuthGetUser,
       RpcUpsertDriverPosition (position_rpc_params driver1 (Num 1) (Num 2) None),
       ConsoleError ''[v0] Error updating driver position:''])"
proof -
  have h: "createServerClient env_rpc_error = Returns ()"
    "auth_getUser env_rpc_error = Returns \<lparr> auth_user = Some driver1, authError = None \<rparr>"
    "rpc_upsert_driver_position env_rpc_error = Returns (Some (JsError (Some ''timeout'')))"
    by (simp_all add: env_rpc_error_def env_ok_def)
  show ?thesis
    using h position_upsert_single_attempt [of env_rpc_error "Num 1" "Num 2" None driver1
        "JsError (Some ''timeout'')"]
    by blast
qed

text \<open>
  Claim C6 as stated fails: when the upsert reports an error on every call, the retry
  policy asks for three attempts with sleeps of 1000 and 2000 milliseconds between them;
  the action makes one attempt and returns.
\<close>

theorem position_upsert_retry_counterexample:
  "\<not> follows_retry_policy is_position_upsert (position_upsert_succeeds env_rpc_error)
       (updateDriverPosition env_rpc_error (Num 1) (Num 2) None)"
proof -
  have "rpc_upsert_driver_position env_rpc_error \<noteq> Returns None"
    by (simp add: env_rpc_error_def)
  then show ?thesis
    by (simp add: position_rpc_error_run follows_retry_policy_def position_upsert_succeeds_def)
qed

lemma backoff_filter [simp]:
  "filter is_identity_check (backoff n) = []"
  "filter is_write (backoff n) = []"
  "filter (writes_other_notes pn) (backoff n) = []"
  "filter is_FetchPodEmail (backoff n) = []"
  "filter is_BlobPut (backoff n) = []"
  by (simp_all add: backoff_def is_write_def)

lemma pod_email_dispatch_filter:
  "filter is_identity_check (snd (pod_email_dispatch e orderId pd k)) = []"
  "filter is_write (snd (pod_email_dispatch e orderId pd k)) = []"
  "filter (writes_other_notes pn) (snd (pod_email_dispatch e orderId pd k)) = []"
  by (cases "fetch_pod_email e k";
      simp add: pod_email_dispatch_def io_simps is_write_def)+

lemma status_attempt_no_check:
  "filter is_identity_check (snd (status_attempt e orderId status ns u k)) = []"
  by (cases "orders_update e k"; cases "stop_events_insert e k")
     (auto simp: status_attempt_def io_simps split: option.splits)

lemma pod_attempt_no_check:
  "filter is_identity_check (snd (pod_attempt e orderId photoUrl signatureUrl pn u k)) = []"
  by (cases "pods_insert e k")
     (auto simp: pod_attempt_def io_simps pod_email_dispatch_filter split: option.splits outcome.splits)

lemma pod_attempt_notes:
  "filter (writes_other_notes pn) (snd (pod_attempt e orderId photoUrl signatureUrl pn u k)) = []"
  by (cases "pods_insert e k")
     (auto simp: pod_attempt_def io_simps pod_email_dispatch_filter split: option.splits outcome.splits)

lemma blob_attempt_no_check:
  "filter is_identity_check (snd (blob_attempt e filename b contentType k)) = []"
  by (cases "blob_put e k") (simp_all add: blob_attempt_def io_simps)

lemma status_loop_no_check:
  "filter is_identity_check (snd (status_loop e orderId status ns u k le)) = []"
  unfolding status_loop_retry
  by (rule retry_loop_filter_Nil) (simp_all add: status_attempt_no_check status_exhausted_def)

lemma pod_loop_no_check:
  "filter is_identity_check (snd (pod_loop e orderId photoUrl signatureUrl pn u k le)) = []"
  unfolding pod_loop_retry
  by (rule retry_loop_filter_Nil) (simp_all add: pod_attempt_no_check pod_exhausted_def)

lemma pod_loop_notes:
  "filter (writes_other_notes pn) (snd (pod_loop e orderId photoUrl signatureUrl pn u k le)) = []"
  unfolding pod_loop_retry
  by (rule retry_loop_filter_Nil) (simp_all add: pod_attempt_notes pod_exhausted_def)

lemma blob_loop_no_check:
  "filter is_identity_check (snd (blob_loop e filename b contentType k le)) = []"
  unfolding blob_loop_retry
  by (rule retry_loop_filter_Nil) (simp_all add: blob_attempt_no_check blob_exhausted_def)

lemma checked_after_one: "filter is_identity_check t = [] \<Longrightarrow> checked_before_writes (Suc 0) t"
  by (induction t) (auto split: if_splits)

lemma decode_blob_no_check:
  "filter is_identity_check (snd (decode_blob e base64Data contentType)) = []"
  by (simp add: decode_blob_def split: option.splits)

lemma uploadToBlob_no_check:
  "filter is_identity_check (snd (uploadToBlob e base64Data filename contentType)) = []"
  by (cases "fst (decode_blob e base64Data contentType)")
     (simp_all add: uploadToBlob_def io_simps decode_blob_no_check blob_loop_no_check)

lemma updateStopStatus_guarded:
  "guarded_by_identity_check e (updateStopStatus e orderId status ns)"
  by (cases "createServerClient e"; cases "auth_getUser e")
     (auto simp: guarded_by_identity_check_def identity_rejected_def is_auth_expired_failure_def
        updateStopStatus_def updateStopStatus_body_def io_simps auth_expired_def is_write_def
        status_loop_no_check checked_after_one status_loop_Returns
        split: option.splits outcome.splits)

lemma savePOD_guarded:
  "guarded_by_identity_check e (savePOD e orderId photoUrl signatureUrl ns recipientName)"
  by (cases "createServerClient e"; cases "auth_getUser e")
     (auto simp: guarded_by_identity_check_def identity_rejected_def is_auth_expired_failure_def
        savePOD_def savePOD_body_def io_simps auth_expired_def is_write_def
        pod_loop_no_check checked_after_one pod_loop_Returns
        split: option.splits outcome.splits)

lemma updateDriverPosition_guarded:
  "guarded_by_identity_check e (updateDriverPosition e lat lng accuracy)"
  by (cases "createServerClient e"; cases "auth_getUser e"; cases "rpc_upsert_driver_position e")
     (auto simp: guarded_by_identity_check_def identity_rejected_def is_auth_expired_failure_def
        updateDriverPosition_def updateDriverPosition_body_def io_simps is_write_def
        split: option.splits outcome.splits)

text \<open>
  Claim C1, as amended. In \<^verbatim>\<open>updateStopStatus\<close>, \<^verbatim>\<open>savePOD\<close> and
  \<^verbatim>\<open>updateDriverPosition\<close>, for every input, at most one identity check is made and
  every write is attempted after exactly one; if the identity provider reports an error
  or no user, the action returns a failure with code \<^verbatim>\<open>AUTH_EXPIRED\<close> after that one
  check and attempts no write. \<^verbatim>\<open>uploadToBlob\<close> makes no identity check at all.
\<close>

theorem identity_check_guards_writes:
  "guarded_by_identity_check e (updateStopStatus e orderId status ns) \<and>
   guarded_by_identity_check e (savePOD e orderId photoUrl signatureUrl ns recipientName) \<and>
   guarded_by_identity_check e (updateDriverPosition e lat lng accuracy) \<and>
   filter is_identity_check (snd (uploadToBlob e base64Data filename contentType)) = []"
  by (simp add: updateStopStatus_guarded savePOD_guarded updateDriverPosition_guarded
      uploadToBlob_no_check)

theorem identity_check_guards_writes_witness:
  "identity_rejected env_no_user \<and>
   is_auth_expired_failure (fst (updateStopStatus env_no_user ''o1'' delivered None)) \<and>
   filter is_write (snd (updateStopStatus env_no_user ''o1'' delivered None)) = [] \<and>
   is_auth_expired_failure (fst (savePOD env_no_user ''o1'' None None None None)) \<and>
   filter is_write (snd (savePOD env_no_user ''o1'' None None None None)) = [] \<and>
   is_auth_expired_failure (fst (updateDriverPosition env_no_user (Num 1) (Num 2) None)) \<and>
   filter is_write (snd (updateDriverPosition env_no_user (Num 1) (Num 2) None)) = [] \<and>
   checked_before_writes 0 (snd (updateStopStatus env_ok ''o1'' delivered None)) \<and>
   length (filter is_identity_check (snd (updateStopStatus env_ok ''o1'' delivered None))) \<le> 1"
proof -
  have h: "identity_rejected env_no_user"
    by (simp add: identity_rejected_def env_no_user_def env_ok_def)
  show ?thesis
    using h
      identity_check_guards_writes [of env_no_user "''o1''" delivered None None None None
        "Num 1" "Num 2" None "[]" "[]" "[]"]
      identity_check_guards_writes [of env_ok "''o1''" delivered None None None None
        "Num 1" "Num 2" None "[]" "[]" "[]"]
    unfolding guarded_by_identity_check_def
    by blast
qed

text \<open>
  Claim C1 as stated fails for \<^verbatim>\<open>uploadToBlob\<close>: with an identity provider that reports
  no user, it still puts the blob, without any identity check, and returns the URL.
\<close>

lemma upload_QQ_no_user:
  "uploadToBlob env_no_user ''QQ=='' ''a.png'' ''image/png'' =
     (Returns [(''url'', JStr ''https://blob.example/a.png''), (''error'', JNull)],
      [BlobPut ''a.png'' \<lparr> bytes = [65], blob_type = ''image/png'' \<rparr> ''image/png''])"
  by (simp add: uploadToBlob_def decode_blob_def base64_payload_def atob_QQ blob_loop_retry
      retry_loop_unroll next_pass_def blob_attempt_def env_no_user_def env_ok_def)

theorem uploadToBlob_unguarded_counterexample:
  "identity_rejected env_no_user \<and>
   \<not> guarded_by_identity_check env_no_user (uploadToBlob env_no_user ''QQ=='' ''a.png'' ''image/png'') \<and>
   filter is_write (snd (uploadToBlob env_no_user ''QQ=='' ''a.png'' ''image/png'')) =
     [BlobPut ''a.png'' \<lparr> bytes = [65], blob_type = ''image/png'' \<rparr> ''image/png''] \<and>
   filter is_identity_check (snd (uploadToBlob env_no_user ''QQ=='' ''a.png'' ''image/png'')) = []"
proof -
  have h: "identity_rejected env_no_user"
    by (simp add: identity_rejected_def env_no_user_def env_ok_def)
  then show ?thesis
    by (simp add: upload_QQ_no_user guarded_by_identity_check_def is_write_def)
qed

text \<open>
  Claim C9. In \<^verbatim>\<open>savePOD\<close>, when a recipient name is supplied (present and not the
  empty string, which is what the test \<^verbatim>\<open>recipientName ? ... : notes\<close> asks) the
  persisted notes are \<^verbatim>\<open>"Recipient: " + recipientName + "\n" + notes\<close>, absent notes
  contributing nothing; \<^verbatim>\<open>"Jane Doe"\<close> and \<^verbatim>\<open>"left at door"\<close> persist as
  \<^verbatim>\<open>"Recipient: Jane Doe\nleft at door"\<close>. When no recipient name is supplied the
  persisted notes are the caller's notes unchanged, absent ones included. Every
  \<^verbatim>\<open>pods\<close> insert of the run carries these notes, and when the identity check passes
  the first store call is that insert.
\<close>

theorem persisted_notes:
  "(recipientName = Some r \<and> r \<noteq> [] \<longrightarrow>
      podNotes recipientName ns =
        Some (''Recipient: '' @ r @ [CHR 0x0A] @ (case ns of None \<Rightarrow> [] | Some n \<Rightarrow> n))) \<and>
   (recipientName = None \<or> recipientName = Some [] \<longrightarrow> podNotes recipientName ns = ns) \<and>
   podNotes (Some ''Jane Doe'') (Some ''left at door'') =
     Some (''Recipient: Jane Doe'' @ [CHR 0x0A] @ ''left at door'') \<and>
   filter (writes_other_notes (podNotes recipientName ns))
     (snd (savePOD e orderId photoUrl signatureUrl ns recipientName)) = [] \<and>
   (createServerClient e = Returns () \<and>
    auth_getUser e = Returns \<lparr> auth_user = Some u, authError = None \<rparr> \<longrightarrow>
      take 3 (snd (savePOD e orderId photoUrl signatureUrl ns recipientName)) =
        [CreateServerClient, AuthGetUser,
         PodsInsert \<lparr> order_id = orderId, driver_id = user_id u, photo_url = photoUrl,
                      signature_url = signatureUrl, pod_notes = podNotes recipientName ns,
                      delivered_at = now_iso e 0 \<rparr>])"
proof -
  have 1: "podNotes recipientName ns =
        Some (''Recipient: '' @ r @ [CHR 0x0A] @ (case ns of None \<Rightarrow> [] | Some n \<Rightarrow> n))"
    if "recipientName = Some r" "r \<noteq> []"
    using that by (simp add: podNotes_def)
  have 2: "podNotes recipientName ns = ns" if "recipientName = None \<or> recipientName = Some []"
    using that by (auto simp: podNotes_def)
  have 3: "podNotes (Some ''Jane Doe'') (Some ''left at door'') =
     Some (''Recipient: Jane Doe'' @ [CHR 0x0A] @ ''left at door'')"
    by (simp add: podNotes_def)
  have 4: "filter (writes_other_notes (podNotes recipientName ns))
     (snd (savePOD e orderId photoUrl signatureUrl ns recipientName)) = []"
    by (cases "createServerClient e"; cases "auth_getUser e")
       (auto simp: savePOD_def savePOD_body_def io_simps pod_loop_notes pod_loop_Returns
          split: option.splits outcome.splits)
  have 5: "take 3 (snd (savePOD e orderId photoUrl signatureUrl ns recipientName)) =
        [CreateServerClient, AuthGetUser,
         PodsInsert \<lparr> order_id = orderId, driver_id = user_id u, photo_url = photoUrl,
                      signature_url = signatureUrl, pod_notes = podNotes recipientName ns,
                      delivered_at = now_iso e 0 \<rparr>]"
    if "createServerClient e = Returns ()"
      "auth_getUser e = Returns \<lparr> auth_user = Some u, authError = None \<rparr>"
    using that
    by (cases "pods_insert e 0")
       (simp_all add: savePOD_def savePOD_body_def io_simps pod_loop_retry retry_loop_unroll
          snd_next_pass pod_attempt_def)
  show ?thesis
    using 1 2 3 4 5 by blast
qed

theorem persisted_notes_witness:
  "podNotes (Some ''Jane Doe'') (Some ''left at door'') =
     Some (''Recipient: '' @ ''Jane Doe'' @ [CHR 0x0A] @ ''left at door'') \<and>
   podNotes (Some ''Jane Doe'') None = Some (''Recipient: '' @ ''Jane Doe'' @ [CHR 0x0A]) \<and>
   podNotes None (Some ''left at door'') = Some ''left at door'' \<and>
   podNotes None None = None \<and>
   take 3 (snd (savePOD env_ok ''o1'' None None (Some ''left at door'') (Some ''Jane Doe''))) =
     [CreateServerClient, AuthGetUser,
      PodsInsert \<lparr> order_id = ''o1'', driver_id = user_id driver1, photo_url = None,
                   signature_url = None,
                   pod_notes = podNotes (Some ''Jane Doe'') (Some ''left at door''),
                   delivered_at = now_iso env_ok 0 \<rparr>]"
proof -
  have h: "createServerClient env_ok = Returns ()"
    "auth_getUser env_ok = Returns \<lparr> auth_user = Some driver1, authError = None \<rparr>"
    by (simp_all add: env_ok_def)
  have n: "''Jane Doe'' \<noteq> []" by simp
  show ?thesis
    using h n
      persisted_notes [of "Some ''Jane Doe''" "''Jane Doe''" "Some ''left at door''" env_ok "''o1''" None None driver1]
      persisted_notes [of "Some ''Jane Doe''" "''Jane Doe''" None env_ok "''o1''" None None driver1]
      persisted_notes [of None "[]" "Some ''left at door''" env_ok "''o1''" None None driver1]
      persisted_notes [of None "[]" None env_ok "''o1''" None None driver1]
    by (simp del: append.simps list.simps)
qed

subsection \<open>The audit insert of updateStopStatus\<close>

text \<open>
  After a successful status update the \<^verbatim>\<open>stop_events\<close> insert is attempted once in
  that pass. An error it returns is logged and the pass still returns success; a raise
  lands in the \<^verbatim>\<open>catch\<close> of the retry loop and the pass counts as failed.
\<close>

lemma status_attempt_audit_returns:
  assumes "orders_update e k = Returns None" "stop_events_insert e k = Returns eventError"
  shows "status_attempt e orderId status ns u k =
     (Returns (Done [(''success'', JBool True)]),
      [OrdersUpdate orderId status (now_iso e k), StopEventsInsert orderId (user_id u) status ns]
      @ (case eventError of Some ee \<Rightarrow> [ConsoleError ''[v0] Error creating stop event:''] | None \<Rightarrow> [])
      @ [RevalidatePath ''/driver''])"
  using assms by (simp add: status_attempt_def)

lemma status_attempt_audit_raises:
  assumes "orders_update e k = Returns None" "stop_events_insert e k = Raises x"
  shows "status_attempt e orderId status ns u k =
     (Returns (Retry (Some x)),
      [OrdersUpdate orderId status (now_iso e k), StopEventsInsert orderId (user_id u) status ns]
      @ backoff (k + 1))"
  using assms by (simp add: status_attempt_def)

text \<open>
  Claim C3 fails on the code. With a status update that succeeds on every call and a
  \<^verbatim>\<open>stop_events\<close> insert that throws, \<^verbatim>\<open>updateStopStatus\<close> repeats the update and the
  insert three times, sleeping 1000 and 2000 milliseconds in between, and returns
  \<^verbatim>\<open>{ success: false, error: "Failed to update order status: boom" }\<close>.
\<close>

theorem audit_raise_fails_updateStopStatus:
  "orders_update env_audit_raises 0 = Returns None \<and>
   orders_update env_audit_raises 1 = Returns None \<and>
   orders_update env_audit_raises 2 = Returns None \<and>
   updateStopStatus env_audit_raises ''o1'' delivered None =
     (Returns [(''success'', JBool False),
               (''error'', JStr ''Failed to update order status: boom'')],
      [CreateServerClient, AuthGetUser,
       OrdersUpdate ''o1'' delivered ''2024-01-01T00:00:00.000Z'',
       StopEventsInsert ''o1'' ''driver-1'' delivered None,
       Sleep 1000,
       OrdersUpdate ''o1'' delivered ''2024-01-01T00:00:00.000Z'',
       StopEventsInsert ''o1'' ''driver-1'' delivered None,
       Sleep 2000,
       OrdersUpdate ''o1'' delivered ''2024-01-01T00:00:00.000Z'',
       StopEventsInsert ''o1'' ''driver-1'' delivered None,
       ConsoleError ''[v0] Database error in updateStopStatus after retries:''])"
  by (simp add: updateStopStatus_def updateStopStatus_body_def status_loop_retry retry_loop_unroll
      next_pass_def status_attempt_def status_exhausted_def backoff_def maxRetries_def
      env_audit_raises_def env_ok_def driver1_def)

text \<open>
  Claim C7, as amended. When the payload cannot be decoded (\<^verbatim>\<open>atob\<close> throws on
  malformed base64, or reading the data URL rejects), \<^verbatim>\<open>uploadToBlob\<close> returns
  \<^verbatim>\<open>{ url: null, error: "Failed to upload file" }\<close> at once: the blob put is never
  invoked and nothing is retried. A payload that decodes to zero bytes is not rejected:
  the first thing the action does with it is the put of the empty blob.
\<close>

theorem undecodable_payload_fails_without_put:
  "(\<not> is_Returns (fst (decode_blob e base64Data contentType)) \<longrightarrow>
      fst (uploadToBlob e base64Data filename contentType) =
        Returns [(''url'', JNull), (''error'', JStr ''Failed to upload file'')] \<and>
      filter is_BlobPut (snd (uploadToBlob e base64Data filename contentType)) = [] \<and>
      sleeps (snd (uploadToBlob e base64Data filename contentType)) = []) \<and>
   (\<not> startsWith base64Data ''data:'' \<and> atob (base64_payload base64Data) = None \<longrightarrow>
      uploadToBlob e base64Data filename contentType =
        (Returns [(''url'', JNull), (''error'', JStr ''Failed to upload file'')],
         [ConsoleError ''[v0] Error uploading to blob:''])) \<and>
   (startsWith base64Data ''data:'' \<and> fetch_data_url e base64Data = Raises x \<longrightarrow>
      uploadToBlob e base64Data filename contentType =
        (Returns [(''url'', JNull), (''error'', JStr ''Failed to upload file'')],
         [FetchDataUrl base64Data, ConsoleError ''[v0] Error uploading to blob:''])) \<and>
   (\<not> startsWith base64Data ''data:'' \<and> atob (base64_payload base64Data) = Some [] \<longrightarrow>
      take 1 (snd (uploadToBlob e base64Data filename contentType)) =
        [BlobPut filename \<lparr> bytes = [], blob_type = contentType \<rparr> contentType])"
proof -
  have 1: "fst (uploadToBlob e base64Data filename contentType) =
        Returns [(''url'', JNull), (''error'', JStr ''Failed to upload file'')] \<and>
      filter is_BlobPut (snd (uploadToBlob e base64Data filename contentType)) = [] \<and>
      sleeps (snd (uploadToBlob e base64Data filename contentType)) = []"
    if "\<not> is_Returns (fst (decode_blob e base64Data contentType))"
  proof -
    from that obtain y where y: "fst (decode_blob e base64Data contentType) = Raises y"
      by (cases "fst (decode_blob e base64Data contentType)") simp_all
    have "filter is_BlobPut (snd (decode_blob e base64Data contentType)) = []"
      "sleeps (snd (decode_blob e base64Data contentType)) = []"
      by (simp_all add: decode_blob_def split: option.splits)
    with y show ?thesis
      by (simp add: uploadToBlob_def io_simps sleeps_append)
  qed
  have 2: "uploadToBlob e base64Data filename contentType =
        (Returns [(''url'', JNull), (''error'', JStr ''Failed to upload file'')],
         [ConsoleError ''[v0] Error uploading to blob:''])"
    if "\<not> startsWith base64Data ''data:''" "atob (base64_payload base64Data) = None"
    using that by (simp add: uploadToBlob_def decode_blob_def)
  have 3: "uploadToBlob e base64Data filename contentType =
        (Returns [(''url'', JNull), (''error'', JStr ''Failed to upload file'')],
         [FetchDataUrl base64Data, ConsoleError ''[v0] Error uploading to blob:''])"
    if "startsWith base64Data ''data:''" "fetch_data_url e base64Data = Raises x"
    using that by (simp add: uploadToBlob_def decode_blob_def)
  have 4: "take 1 (snd (uploadToBlob e base64Data filename contentType)) =
        [BlobPut filename \<lparr> bytes = [], blob_type = contentType \<rparr> contentType]"
    if "\<not> startsWith base64Data ''data:''" "atob (base64_payload base64Data) = Some []"
    using that
    by (simp add: uploadToBlob_def decode_blob_def io_simps blob_loop_retry retry_loop_unroll
        snd_next_pass blob_attempt_def)
  show ?thesis
    using 1 2 3 4 by blast
qed

lemma startsWith_x: "\<not> startsWith ''x,'' ''data:''"
  by simp

lemma payload_x: "base64_payload ''x,'' = ''x,''"
  by (simp add: base64_payload_def)

theorem undecodable_payload_fails_without_put_witness:
  "\<not> startsWith ''x,'' ''data:'' \<and> atob (base64_payload ''x,'') = None \<and>
   uploadToBlob env_ok ''x,'' ''a.png'' ''image/png'' =
     (Returns [(''url'', JNull), (''error'', JStr ''Failed to upload file'')],
      [ConsoleError ''[v0] Error uploading to blob:'']) \<and>
   filter is_BlobPut (snd (uploadToBlob env_ok ''x,'' ''a.png'' ''image/png'')) = []"
proof -
  have h: "\<not> startsWith ''x,'' ''data:''" "atob (base64_payload ''x,'') = None"
    "\<not> is_Returns (fst (decode_blob env_ok ''x,'' ''image/png''))"
    by (simp_all add: payload_x atob_malformed decode_malformed)
  show ?thesis
    using h undecodable_payload_fails_without_put [of env_ok "''x,''" "''image/png''" "''a.png''"]
    by blast
qed

text \<open>
  Claim C7 as stated fails for a payload that decodes to zero bytes: the empty string
  decodes to no bytes, and \<^verbatim>\<open>uploadToBlob\<close> puts the empty blob and returns its URL.
\<close>

theorem zero_byte_payload_counterexample:
  "atob (base64_payload []) = Some [] \<and>
   uploadToBlob env_ok [] ''a.png'' ''image/png'' =
     (Returns [(''url'', JStr ''https://blob.example/a.png''), (''error'', JNull)],
      [BlobPut ''a.png'' \<lparr> bytes = [], blob_type = ''image/png'' \<rparr> ''image/png''])"
  by (simp add: uploadToBlob_def decode_blob_def base64_payload_def atob_empty blob_loop_retry
      retry_loop_unroll next_pass_def blob_attempt_def env_ok_def)

subsection \<open>The notification dispatch of savePOD\<close>

lemma retry_loop_cong:
  assumes a: "\<And>k. fst (a k) = fst (a' k) \<and> filter p (snd (a k)) = filter p (snd (a' k))"
    and x: "\<And>err. fst (x err) = fst (x' err) \<and> filter p (snd (x err)) = filter p (snd (x' err))"
  shows "fst (retry_loop a x k le) = fst (retry_loop a' x' k le) \<and>
         filter p (snd (retry_loop a x k le)) = filter p (snd (retry_loop a' x' k le))"
  using a x
proof (induction a x k le rule: retry_loop.induct)
  case (1 attempt exhausted retryCount lastError)
  show ?case
  proof (cases "retryCount < maxRetries")
    case True
    note ih = 1(1)[OF True 1(2) 1(3)]
    from True 1(2)[of retryCount] ih show ?thesis
      by (simp add: retry_loop.simps[of attempt exhausted retryCount]
          retry_loop.simps[of a' x' retryCount] fst_io_bind snd_io_bind
          split: outcome.splits control.splits)
  next
    case False
    with 1(3)[of lastError] show ?thesis
      by (simp add: retry_loop.simps[of attempt exhausted retryCount]
          retry_loop.simps[of a' x' retryCount])
  qed
qed

lemma retry_loop_first_three:
  assumes "filter p (snd (a 0)) = []" "filter p (snd (a 1)) = []" "filter p (snd (a 2)) = []"
    and "\<And>err. filter p (snd (x err)) = []"
  shows "filter p (snd (retry_loop a x 0 le)) = []"
  using assms
  by (simp add: retry_loop_unroll snd_next_pass split: outcome.splits control.splits)

lemma pod_email_dispatch_Returns: "fst (pod_email_dispatch e orderId pd k) = Returns ()"
  by (cases "fetch_pod_email e k") (simp_all add: pod_email_dispatch_def io_simps)

lemma pod_email_dispatch_only_dispatch:
  "filter not_dispatch_event (snd (pod_email_dispatch e orderId pd k)) = []"
  by (cases "fetch_pod_email e k")
     (simp_all add: pod_email_dispatch_def io_simps not_dispatch_event_def)

lemma pod_email_dispatch_fetch:
  "filter is_FetchPodEmail (snd (pod_email_dispatch e orderId pd k)) =
     (if truthy (pod_id pd) \<and> NEXT_PUBLIC_ENABLE_POD_EMAIL e = Some ''true''
      then [FetchPodEmail orderId (pod_id pd)] else [])"
  by (cases "fetch_pod_email e k") (simp_all add: pod_email_dispatch_def io_simps)

lemma backoff_not_dispatch [simp]: "filter not_dispatch_event (backoff n) = backoff n"
  by (simp add: backoff_def not_dispatch_event_def)

lemma pod_attempt_modulo_dispatch:
  assumes "pods_insert e' = pods_insert e" "now_iso e' = now_iso e"
  shows "fst (pod_attempt e' orderId photoUrl signatureUrl pn u k) =
           fst (pod_attempt e orderId photoUrl signatureUrl pn u k) \<and>
         filter not_dispatch_event (snd (pod_attempt e' orderId photoUrl signatureUrl pn u k)) =
           filter not_dispatch_event (snd (pod_attempt e orderId photoUrl signatureUrl pn u k))"
  using assms
  by (cases "pods_insert e k")
     (auto simp: pod_attempt_def io_simps pod_email_dispatch_Returns
        pod_email_dispatch_only_dispatch split: option.splits)

lemma pod_loop_modulo_dispatch:
  assumes "pods_insert e' = pods_insert e" "now_iso e' = now_iso e"
  shows "fst (pod_loop e' orderId photoUrl signatureUrl pn u k le) =
           fst (pod_loop e orderId photoUrl signatureUrl pn u k le) \<and>
         filter not_dispatch_event (snd (pod_loop e' orderId photoUrl signatureUrl pn u k le)) =
           filter not_dispatch_event (snd (pod_loop e orderId photoUrl signatureUrl pn u k le))"
  unfolding pod_loop_retry
  by (rule retry_loop_cong) (simp_all add: pod_attempt_modulo_dispatch[OF assms])

lemma savePOD_modulo_dispatch:
  assumes "createServerClient e' = createServerClient e" "auth_getUser e' = auth_getUser e"
    "pods_insert e' = pods_insert e" "now_iso e' = now_iso e"
  shows "fst (savePOD e' orderId photoUrl signatureUrl ns recipientName) =
           fst (savePOD e orderId photoUrl signatureUrl ns recipientName) \<and>
         filter not_dispatch_event (snd (savePOD e' orderId photoUrl signatureUrl ns recipientName)) =
           filter not_dispatch_event (snd (savePOD e orderId photoUrl signatureUrl ns recipientName))"
  using assms(1,2) pod_loop_modulo_dispatch[OF assms(3,4)]
  by (cases "createServerClient e"; cases "auth_getUser e")
     (auto simp: savePOD_def savePOD_body_def io_simps pod_loop_Returns not_dispatch_event_def
        split: option.splits outcome.splits)

lemma pod_email_dispatch_unawaited:
  "pod_email_dispatch (e\<lparr>fetch_pod_email := (\<lambda>k. Returns (p k))\<rparr>) orderId pd k =
   pod_email_dispatch (e\<lparr>fetch_pod_email := (\<lambda>k. Returns (q k))\<rparr>) orderId pd k"
  by (simp add: pod_email_dispatch_def)

lemma pod_attempt_unawaited:
  "pod_attempt (e\<lparr>fetch_pod_email := (\<lambda>k. Returns (p k))\<rparr>) orderId photoUrl signatureUrl pn u =
   pod_attempt (e\<lparr>fetch_pod_email := (\<lambda>k. Returns (q k))\<rparr>) orderId photoUrl signatureUrl pn u"
  by (rule ext)
     (simp add: pod_attempt_def pod_email_dispatch_unawaited[where p=p and q=q]
        cong: option.case_cong)

lemma savePOD_unawaited:
  "savePOD (e\<lparr>fetch_pod_email := (\<lambda>k. Returns (p k))\<rparr>) orderId photoUrl signatureUrl ns recipientName =
   savePOD (e\<lparr>fetch_pod_email := (\<lambda>k. Returns (q k))\<rparr>) orderId photoUrl signatureUrl ns recipientName"
  by (simp add: savePOD_def savePOD_body_def pod_loop_retry
      pod_attempt_unawaited[where p=p and q=q] cong: option.case_cong)

lemma pod_attempt_fetch:
  "filter is_FetchPodEmail (snd (pod_attempt e orderId photoUrl signatureUrl pn u k)) \<noteq> [] \<Longrightarrow>
     NEXT_PUBLIC_ENABLE_POD_EMAIL e = Some ''true'' \<and> pod_insert_produces_id e k"
  by (cases "pods_insert e k")
     (auto simp: pod_attempt_def io_simps pod_email_dispatch_fetch pod_email_dispatch_Returns
        pod_insert_produces_id_def split: option.splits if_splits)

lemma pod_loop_fetch:
  assumes "filter is_FetchPodEmail (snd (pod_loop e orderId photoUrl signatureUrl pn u 0 None)) \<noteq> []"
  shows "NEXT_PUBLIC_ENABLE_POD_EMAIL e = Some ''true'' \<and> (\<exists>k<3. pod_insert_produces_id e k)"
proof (rule ccontr)
  assume n: "\<not> (NEXT_PUBLIC_ENABLE_POD_EMAIL e = Some ''true'' \<and> (\<exists>k<3. pod_insert_produces_id e k))"
  have "filter is_FetchPodEmail (snd (pod_attempt e orderId photoUrl signatureUrl pn u k)) = []"
    if "k < 3" for k
    using n that pod_attempt_fetch[of e orderId photoUrl signatureUrl pn u k] by blast
  then have "filter is_FetchPodEmail (snd (pod_loop e orderId photoUrl signatureUrl pn u 0 None)) = []"
    unfolding pod_loop_retry
    by (intro retry_loop_first_three) (simp_all add: pod_exhausted_def)
  with assms show False by simp
qed

lemma savePOD_fetch:
  assumes "filter is_FetchPodEmail (snd (savePOD e orderId photoUrl signatureUrl ns recipientName)) \<noteq> []"
  shows "NEXT_PUBLIC_ENABLE_POD_EMAIL e = Some ''true'' \<and> (\<exists>k<3. pod_insert_produces_id e k)"
  using assms pod_loop_fetch[of e orderId photoUrl signatureUrl "podNotes recipientName ns"]
  by (cases "createServerClient e"; cases "auth_getUser e")
     (auto simp: savePOD_def savePOD_body_def io_simps pod_loop_Returns
        split: option.splits outcome.splits)

lemma pod_email_task_settles: "fst (pod_email_task settled) = Returns ()"
proof (cases settled)
  case (Raises x)
  then show ?thesis by (simp add: pod_email_task_def io_simps)
next
  case (Returns r)
  then show ?thesis
    by (simp add: pod_email_task_def io_simps split: outcome.splits)
qed

lemma pod_loop_follows_policy:
  "follows_retry_policy is_PodsInsert (pod_attempt_succeeds e)
     (pod_loop e orderId photoUrl signatureUrl pn u 0 None)"
  unfolding pod_loop_retry
  by (rule retry_policy)
     (simp_all add: pod_attempt_ok pod_attempt_ko pod_exhausted_def ticks_Cons ticks_Nil)

lemma pod_loop_succeeds:
  assumes "\<exists>k<3. pod_attempt_succeeds e k"
  shows "fst (pod_loop e orderId photoUrl signatureUrl pn u 0 None) = Returns [(''success'', JBool True)]"
proof -
  from assms obtain k where k: "k < 3" "pod_attempt_succeeds e k" by blast
  define m where "m = (LEAST j. pod_attempt_succeeds e j)"
  have m: "pod_attempt_succeeds e m" "m \<le> k" "\<forall>j<m. \<not> pod_attempt_succeeds e j"
    unfolding m_def using k(2) by (auto intro: LeastI Least_le dest: not_less_Least)
  with k(1) have "m < 3" by simp
  with m pod_loop_follows_policy[of e orderId photoUrl signatureUrl pn u] show ?thesis
    unfolding follows_retry_policy_def Let_def by blast
qed

lemma savePOD_succeeds:
  assumes "createServerClient e = Returns ()"
    "auth_getUser e = Returns \<lparr> auth_user = Some u, authError = None \<rparr>"
    "\<exists>k<3. pod_attempt_succeeds e k"
  shows "fst (savePOD e orderId photoUrl signatureUrl ns recipientName) = Returns [(''success'', JBool True)]"
  using assms(1,2) pod_loop_succeeds[OF assms(3)]
  by (simp add: savePOD_def savePOD_body_def io_simps)

text \<open>
  Claim C4. When the \<^verbatim>\<open>pods\<close> insert succeeds within the three attempts, \<^verbatim>\<open>savePOD\<close>
  returns \<^verbatim>\<open>{ success: true }\<close>. The promise of the notification \<^verbatim>\<open>fetch\<close> is not
  awaited: the whole run is the same however that promise settles. Whatever the dispatch
  does (a synchronous throw, a rejection, a non-JSON or an error response), the returned
  value and every call outside the notification block are unchanged, and the handlers
  attached to the promise always settle without raising. The \<^verbatim>\<open>fetch\<close> is called only
  when the flag is \<^verbatim>\<open>"true"\<close> and an inserted row with a truthy id was produced; and
  setting the flag to any other value changes neither the returned value nor any call
  outside the notification block.
\<close>

theorem notification_dispatch_never_affects_result:
  "(createServerClient e = Returns () \<and>
    auth_getUser e = Returns \<lparr> auth_user = Some u, authError = None \<rparr> \<and>
    (\<exists>k<3. pod_attempt_succeeds e k) \<longrightarrow>
      fst (savePOD e orderId photoUrl signatureUrl ns recipientName) =
        Returns [(''success'', JBool True)]) \<and>
   savePOD (e\<lparr>fetch_pod_email := (\<lambda>k. Returns (p k))\<rparr>) orderId photoUrl signatureUrl ns recipientName =
     savePOD (e\<lparr>fetch_pod_email := (\<lambda>k. Returns (q k))\<rparr>) orderId photoUrl signatureUrl ns recipientName \<and>
   fst (savePOD (e\<lparr>fetch_pod_email := d\<rparr>) orderId photoUrl signatureUrl ns recipientName) =
     fst (savePOD e orderId photoUrl signatureUrl ns recipientName) \<and>
   filter not_dispatch_event
       (snd (savePOD (e\<lparr>fetch_pod_email := d\<rparr>) orderId photoUrl signatureUrl ns recipientName)) =
     filter not_dispatch_event (snd (savePOD e orderId photoUrl signatureUrl ns recipientName)) \<and>
   fst (pod_email_task settled) = Returns () \<and>
   (filter is_FetchPodEmail (snd (savePOD e orderId photoUrl signatureUrl ns recipientName)) \<noteq> [] \<longrightarrow>
      NEXT_PUBLIC_ENABLE_POD_EMAIL e = Some ''true'' \<and> (\<exists>k<3. pod_insert_produces_id e k)) \<and>
   fst (savePOD (e\<lparr>NEXT_PUBLIC_ENABLE_POD_EMAIL := flag\<rparr>) orderId photoUrl signatureUrl ns recipientName) =
     fst (savePOD e orderId photoUrl signatureUrl ns recipientName) \<and>
   filter not_dispatch_event
       (snd (savePOD (e\<lparr>NEXT_PUBLIC_ENABLE_POD_EMAIL := flag\<rparr>) orderId photoUrl signatureUrl ns recipientName)) =
     filter not_dispatch_event (snd (savePOD e orderId photoUrl signatureUrl ns recipientName))"
proof -
  have 1: "fst (savePOD e orderId photoUrl signatureUrl ns recipientName) =
        Returns [(''success'', JBool True)]"
    if "createServerClient e = Returns ()"
      "auth_getUser e = Returns \<lparr> auth_user = Some u, authError = None \<rparr>"
      "\<exists>k<3. pod_attempt_succeeds e k"
    using that by (rule savePOD_succeeds)
  note 2 = savePOD_unawaited[where e=e and p=p and q=q and orderId=orderId and photoUrl=photoUrl
      and signatureUrl=signatureUrl and ns=ns and recipientName=recipientName]
  have 3: "fst (savePOD (e\<lparr>fetch_pod_email := d\<rparr>) orderId photoUrl signatureUrl ns recipientName) =
        fst (savePOD e orderId photoUrl signatureUrl ns recipientName) \<and>
      filter not_dispatch_event
        (snd (savePOD (e\<lparr>fetch_pod_email := d\<rparr>) orderId photoUrl signatureUrl ns recipientName)) =
      filter not_dispatch_event (snd (savePOD e orderId photoUrl signatureUrl ns recipientName))"
    by (rule savePOD_modulo_dispatch) simp_all
  note 4 = pod_email_task_settles[of settled]
  have 5: "NEXT_PUBLIC_ENABLE_POD_EMAIL e = Some ''true'' \<and> (\<exists>k<3. pod_insert_produces_id e k)"
    if "filter is_FetchPodEmail (snd (savePOD e orderId photoUrl signatureUrl ns recipientName)) \<noteq> []"
    using that by (rule savePOD_fetch)
  have 6: "fst (savePOD (e\<lparr>NEXT_PUBLIC_ENABLE_POD_EMAIL := flag\<rparr>) orderId photoUrl signatureUrl ns recipientName) =
        fst (savePOD e orderId photoUrl signatureUrl ns recipientName) \<and>
      filter not_dispatch_event
        (snd (savePOD (e\<lparr>NEXT_PUBLIC_ENABLE_POD_EMAIL := flag\<rparr>) orderId photoUrl signatureUrl ns recipientName)) =
      filter not_dispatch_event (snd (savePOD e orderId photoUrl signatureUrl ns recipientName))"
    by (rule savePOD_modulo_dispatch) simp_all
  show ?thesis
    using 1 2 3 4 5 6 by blast
qed

lemma savePOD_ok_run:
  "savePOD env_ok ''o1'' None None None None =
     (Returns [(''success'', JBool True)],
      [CreateServerClient, AuthGetUser,
       PodsInsert \<lparr> order_id = ''o1'', driver_id = ''driver-1'', photo_url = None,
                    signature_url = None, pod_notes = None,
                    delivered_at = ''2024-01-01T00:00:00.000Z'' \<rparr>,
       ConsoleLog ''[v0] [POD] Triggering email via API route'',
       ConsoleLog ''[v0] [POD] Order ID:'',
       ConsoleLog ''[v0] [POD] POD ID:'',
       FetchPodEmail ''o1'' (JStr ''pod-1''),
       RevalidatePath ''/driver''])"
  by (simp add: savePOD_def savePOD_body_def pod_loop_retry retry_loop_unroll next_pass_def
      pod_attempt_def pod_email_dispatch_def podNotes_def env_ok_def driver1_def)

theorem notification_dispatch_never_affects_result_witness:
  "createServerClient env_ok = Returns () \<and>
   auth_getUser env_ok = Returns \<lparr> auth_user = Some driver1, authError = None \<rparr> \<and>
   (\<exists>k<3. pod_attempt_succeeds env_ok k) \<and>
   fetch_pod_email env_ok 0 = Returns (Raises (JsError (Some ''network''))) \<and>
   fst (savePOD env_ok ''o1'' None None None None) = Returns [(''success'', JBool True)] \<and>
   filter is_FetchPodEmail (snd (savePOD env_ok ''o1'' None None None None)) \<noteq> [] \<and>
   NEXT_PUBLIC_ENABLE_POD_EMAIL env_ok = Some ''true'' \<and>
   (\<exists>k<3. pod_insert_produces_id env_ok k) \<and>
   fst (savePOD (env_ok\<lparr>NEXT_PUBLIC_ENABLE_POD_EMAIL := None\<rparr>) ''o1'' None None None None) =
     Returns [(''success'', JBool True)]"
proof -
  have h: "createServerClient env_ok = Returns ()"
    "auth_getUser env_ok = Returns \<lparr> auth_user = Some driver1, authError = None \<rparr>"
    "fetch_pod_email env_ok 0 = Returns (Raises (JsError (Some ''network'')))"
    by (simp_all add: env_ok_def)
  have "pod_attempt_succeeds env_ok 0"
    by (simp add: pod_attempt_succeeds_def env_ok_def)
  then have s: "\<exists>k<3. pod_attempt_succeeds env_ok k"
    by (intro exI[of _ 0]) simp
  have f: "filter is_FetchPodEmail (snd (savePOD env_ok ''o1'' None None None None)) \<noteq> []"
    by (simp add: savePOD_ok_run)
  show ?thesis
    using h s f
      notification_dispatch_never_affects_result [where e = env_ok and u = driver1
        and orderId = "''o1''" and photoUrl = None and signatureUrl = None and ns = None
        and recipientName = None and flag = None and p = "\<lambda>k. Raises (JsError None)"
        and q = "\<lambda>k. Raises (JsError None)" and d = "\<lambda>k. Raises (JsError None)"
        and settled = "Raises (JsError None)"]
    by (simp del: ex_simps)
qed

end
